theory Spec2Isabelle
  imports Main
begin

section \<open>PHP values and built-ins used by the ActivityPub client\<close>

subsection \<open>Decoded JSON\<close>

text \<open>
  \<^verbatim>\<open>json_decode($response, true)\<close> turns a JSON document into PHP values: objects and
  lists both become PHP arrays (\<open>JObj\<close> keeps the key order, \<open>JArr\<close> is a list with integer
  keys), strings are byte strings, numbers are integers here. The keys of a \<open>JObj\<close> are
  distinct, as the keys of a PHP array are.
\<close>

datatype json =
    JNull
  | JBool bool
  | JNum int
  | JStr string
  | JArr "json list"
  | JObj "(string \<times> json) list"

fun is_array :: "json \<Rightarrow> bool" where
  "is_array (JArr xs) = True"
| "is_array (JObj kvs) = True"
| "is_array v = False"

fun is_string :: "json \<Rightarrow> bool" where
  "is_string (JStr s) = True"
| "is_string v = False"

text \<open>
  \<open>php_index v k\<close> is the value of \<^verbatim>\<open>$v['k']\<close> when \<^verbatim>\<open>isset($v['k'])\<close> holds: the key exists
  in an array and its value is not null. On a string, a number, a boolean or null, a
  textual key is never set. \<^verbatim>\<open>$v['k'] ?? d\<close> is \<open>case php_index v k of None \<Rightarrow> d | Some x \<Rightarrow> x\<close>.
\<close>

fun php_index :: "json \<Rightarrow> string \<Rightarrow> json option" where
  "php_index (JObj kvs) k = (case map_of kvs k of Some JNull \<Rightarrow> None | r \<Rightarrow> r)"
| "php_index v k = None"

definition isset :: "json \<Rightarrow> string \<Rightarrow> bool" where
  "isset v k = (php_index v k \<noteq> None)"

text \<open>The values of a PHP array in iteration order, as \<^verbatim>\<open>foreach\<close> visits them.\<close>

fun array_values :: "json \<Rightarrow> json list" where
  "array_values (JArr xs) = xs"
| "array_values (JObj kvs) = map snd kvs"
| "array_values v = []"

text \<open>PHP truthiness of a string and of a value (\<^verbatim>\<open>if ($x)\<close>, \<^verbatim>\<open>!$x\<close>, \<^verbatim>\<open>empty($x)\<close>).\<close>

definition truthy_str :: "string \<Rightarrow> bool" where
  "truthy_str s = (s \<noteq> [] \<and> s \<noteq> ''0'')"

fun truthy :: "json \<Rightarrow> bool" where
  "truthy JNull = False"
| "truthy (JBool b) = b"
| "truthy (JNum n) = (n \<noteq> 0)"
| "truthy (JStr s) = truthy_str s"
| "truthy (JArr xs) = (xs \<noteq> [])"
| "truthy (JObj kvs) = (kvs \<noteq> [])"

text \<open>Decimal notation of an integer, as PHP converts an int to a string.\<close>

fun decimal :: "nat \<Rightarrow> string" where
  "decimal n = (if n < 10 then [char_of (48 + n)] else decimal (n div 10) @ [char_of (48 + n mod 10)])"

definition strval_int :: "int \<Rightarrow> string" where
  "strval_int i = (if i < 0 then CHR ''-'' # decimal (nat (- i)) else decimal (nat i))"

text \<open>
  The coercion of a non-null argument to a \<^verbatim>\<open>string\<close> parameter (the files do not declare
  strict types): scalars are converted, an array raises a TypeError (\<open>None\<close>).
\<close>

fun to_string :: "json \<Rightarrow> string option" where
  "to_string (JStr s) = Some s"
| "to_string (JNum n) = Some (strval_int n)"
| "to_string (JBool b) = Some (if b then ''1'' else [])"
| "to_string v = None"

text \<open>
  \<^verbatim>\<open>$v == 'c'\<close> for a string constant \<open>c\<close> that is not numeric (every constant the code
  compares with is a word or \<^verbatim>\<open>*\<close>): \<^verbatim>\<open>in_array\<close> without its strict flag compares so.
  A string equals it literally, a boolean equals its truth value, an integer is compared
  through its decimal notation, null counts as the empty string, an array never equals it.
\<close>

fun loose_eq_const :: "json \<Rightarrow> string \<Rightarrow> bool" where
  "loose_eq_const (JStr s) c = (s = c)"
| "loose_eq_const (JBool b) c = (b = truthy_str c)"
| "loose_eq_const (JNum n) c = (strval_int n = c)"
| "loose_eq_const JNull c = (c = [])"
| "loose_eq_const v c = False"

definition in_array :: "json \<Rightarrow> string list \<Rightarrow> bool" where
  "in_array v cs = list_ex (loose_eq_const v) cs"

text \<open>ASCII case folding (\<^verbatim>\<open>strtolower\<close>) and C's \<^verbatim>\<open>isspace\<close>, \<^verbatim>\<open>isalnum\<close>, \<^verbatim>\<open>isdigit\<close>.\<close>

definition tolower :: "char \<Rightarrow> char" where
  "tolower c = (let n = (of_char c :: nat) in if 65 \<le> n \<and> n \<le> 90 then char_of (n + 32) else c)"

definition strtolower :: "string \<Rightarrow> string" where
  "strtolower s = map tolower s"

definition isspace :: "char \<Rightarrow> bool" where
  "isspace c = (let n = (of_char c :: nat) in n = 32 \<or> (9 \<le> n \<and> n \<le> 13))"

definition isdigit :: "char \<Rightarrow> bool" where
  "isdigit c = (let n = (of_char c :: nat) in 48 \<le> n \<and> n \<le> 57)"

definition isxdigit :: "char \<Rightarrow> bool" where
  "isxdigit c = (let n = (of_char c :: nat) in
     (48 \<le> n \<and> n \<le> 57) \<or> (65 \<le> n \<and> n \<le> 70) \<or> (97 \<le> n \<and> n \<le> 102))"

definition isalnum :: "char \<Rightarrow> bool" where
  "isalnum c = (let n = (of_char c :: nat) in
     (48 \<le> n \<and> n \<le> 57) \<or> (65 \<le> n \<and> n \<le> 90) \<or> (97 \<le> n \<and> n \<le> 122))"

definition str_starts_with :: "string \<Rightarrow> string \<Rightarrow> bool" where
  "str_starts_with s p = (take (length p) s = p)"

subsection \<open>Built-ins that the model takes as given\<close>

text \<open>
  The results of these PHP library functions are parameters of the model:
  \<^item> \<open>filter_validate_url s\<close>: \<^verbatim>\<open>filter_var($s, FILTER_VALIDATE_URL)\<close> accepts \<open>s\<close>;
  \<^item> \<open>parse_url_host s\<close>, \<open>parse_url_scheme s\<close>: \<^verbatim>\<open>parse_url($s, PHP_URL_HOST)\<close> and
    \<^verbatim>\<open>parse_url($s, PHP_URL_SCHEME)\<close>, \<open>None\<close> for null or false;
  \<^item> \<open>date_create now s\<close>: the instant (seconds since the epoch) that
    \<^verbatim>\<open>new DateTimeImmutable($s)\<close> denotes when the clock reads \<open>now\<close>, \<open>None\<close> when the
    constructor throws on a malformed string;
  \<^item> \<open>tokyo_offset t\<close>: the offset from UTC, in seconds, of the time zone
    \<^verbatim>\<open>Asia/Tokyo\<close> at the instant \<open>t\<close> (the time zone database);
  \<^item> \<open>date_format f t\<close>: \<^verbatim>\<open>date($f)\<close> at the instant \<open>t\<close>, in the server's time zone;
  \<^item> \<open>html5_entity n\<close>: \<open>n\<close> is a name of the HTML5 named character references;
  \<^item> \<open>numeric_eq a b\<close>: the numeric strings \<open>a\<close> and \<open>b\<close> denote the same number, as PHP
    converts them (to integers or to floating-point numbers) when it compares them.
\<close>

record php =
  filter_validate_url :: "string \<Rightarrow> bool"
  parse_url_host :: "string \<Rightarrow> string option"
  parse_url_scheme :: "string \<Rightarrow> string option"
  date_create :: "int \<Rightarrow> string \<Rightarrow> int option"
  tokyo_offset :: "int \<Rightarrow> int"
  date_format :: "string \<Rightarrow> int \<Rightarrow> string"
  html5_entity :: "string \<Rightarrow> bool"
  numeric_eq :: "string \<Rightarrow> string \<Rightarrow> bool"

text \<open>
  \<^verbatim>\<open>$a == $b\<close> on two strings, which \<^verbatim>\<open>in_array\<close> without its strict flag applies: equal
  strings are equal, and two numeric strings are compared by value (\<^verbatim>\<open>"10" == "010"\<close>).
  A numeric string is optional white space, an optional sign, digits with an optional
  fraction (or a fraction alone), an optional exponent, and optional white space.
\<close>

definition is_numeric :: "string \<Rightarrow> bool" where
  "is_numeric s =
     (let unsigned = (\<lambda>t. case t of [] \<Rightarrow> [] | c # cs \<Rightarrow> if c = CHR ''+'' \<or> c = CHR ''-'' then cs else t);
          s1 = unsigned (dropWhile isspace s);
          ip = takeWhile isdigit s1;
          r = dropWhile isdigit s1;
          dot = (case r of [] \<Rightarrow> False | c # cs \<Rightarrow> c = CHR ''.'');
          fp = (if dot then takeWhile isdigit (tl r) else []);
          r1 = (if dot then dropWhile isdigit (tl r) else r);
          e = (case r1 of [] \<Rightarrow> False | c # cs \<Rightarrow> c = CHR ''e'' \<or> c = CHR ''E'');
          e1 = (if e then unsigned (tl r1) else []);
          r2 = (if e \<and> takeWhile isdigit e1 \<noteq> [] then dropWhile isdigit e1 else r1)
      in (ip \<noteq> [] \<or> fp \<noteq> []) \<and> list_all isspace r2)"

definition loose_eq_str :: "php \<Rightarrow> string \<Rightarrow> string \<Rightarrow> bool" where
  "loose_eq_str env a b = (a = b \<or> (is_numeric a \<and> is_numeric b \<and> numeric_eq env a b))"

definition in_array_str :: "php \<Rightarrow> string \<Rightarrow> string list \<Rightarrow> bool" where
  "in_array_str env x xs = list_ex (loose_eq_str env x) xs"

text \<open>\<^verbatim>\<open>filter_var($v, FILTER_VALIDATE_URL)\<close> on any value: an array is rejected.\<close>

definition filter_var_url :: "php \<Rightarrow> json \<Rightarrow> bool" where
  "filter_var_url env v = (case to_string v of None \<Rightarrow> False | Some s \<Rightarrow> filter_validate_url env s)"

subsection \<open>Exceptions\<close>

text \<open>
  \<^verbatim>\<open>FetchException\<close> and \<^verbatim>\<open>ParseException\<close> extend \<^verbatim>\<open>Exception\<close> and carry an error code;
  the constructor of \<^verbatim>\<open>DateTimeImmutable\<close> throws an \<^verbatim>\<open>Exception\<close> too. A \<^verbatim>\<open>TypeError\<close> is
  an \<^verbatim>\<open>Error\<close>: \<^verbatim>\<open>catch (Exception $e)\<close> does not catch it.
\<close>

datatype fetch_code = NETWORK_ERROR | HTTP_ERROR | TIMEOUT_ERROR | INVALID_URL | DOMAIN_NOT_ALLOWED

datatype parse_code = JSON_ERROR | INVALID_ACTOR | NO_OUTBOX | INVALID_NOTE

datatype throwable =
    FetchException fetch_code
  | ParseException parse_code
  | DateException
  | TypeError

fun is_Exception :: "throwable \<Rightarrow> bool" where
  "is_Exception TypeError = False"
| "is_Exception e = True"

section \<open>Validator\<close>

definition validActorTypes :: "string list" where
  "validActorTypes = [''Person'', ''Service'', ''Organization'', ''Application'', ''Group'']"

definition validateActorObject :: "php \<Rightarrow> json \<Rightarrow> bool" where
  "validateActorObject env data =
     (if \<not> (isset data ''id'' \<and> isset data ''type'' \<and> isset data ''outbox'') then False
      else if \<not> in_array (the (php_index data ''type'')) validActorTypes then False
      else if \<not> filter_var_url env (the (php_index data ''outbox'')) then False
      else True)"

definition validateNoteObject :: "json \<Rightarrow> bool" where
  "validateNoteObject data =
     (if php_index data ''type'' \<noteq> Some (JStr ''Note'') then False
      else if (case php_index data ''id'' of None \<Rightarrow> True | Some v \<Rightarrow> \<not> truthy v) then False
      else if \<not> isset data ''content'' \<and> \<not> isset data ''summary'' then False
      else True)"

definition validCollectionTypes :: "string list" where
  "validCollectionTypes =
     [''OrderedCollection'', ''Collection'', ''OrderedCollectionPage'', ''CollectionPage'']"

definition validateOutboxCollection :: "json \<Rightarrow> bool" where
  "validateOutboxCollection data =
     (case php_index data ''type'' of
        None \<Rightarrow> False
      | Some t \<Rightarrow>
          if \<not> in_array t validCollectionTypes then False
          else if \<not> isset data ''orderedItems'' \<and> \<not> isset data ''items'' \<and> \<not> isset data ''first''
          then False
          else True)"

definition dangerousSchemes :: "string list" where
  "dangerousSchemes = [''javascript'', ''data'', ''vbscript'', ''file'']"

text \<open>
  \<^verbatim>\<open>Validator::validateUrl\<close> returns nothing or throws; the model returns \<open>Inr ()\<close> or the
  exception. \<^verbatim>\<open>!$host\<close> holds for null, false, the empty string and the string \<^verbatim>\<open>0\<close>.
  The allow-list is a list of strings.
\<close>

definition validateUrl :: "php \<Rightarrow> string \<Rightarrow> string list \<Rightarrow> throwable + unit" where
  "validateUrl env url allowedDomains =
     (if \<not> filter_validate_url env url then Inl (FetchException INVALID_URL)
      else if \<not> str_starts_with url ''https://'' then Inl (FetchException INVALID_URL)
      else if allowedDomains \<noteq> [] \<and> \<not> in_array_str env ''*'' allowedDomains \<and>
              (case parse_url_host env url of
                 None \<Rightarrow> True
               | Some host \<Rightarrow> \<not> truthy_str host \<or> \<not> in_array_str env host allowedDomains)
      then Inl (FetchException DOMAIN_NOT_ALLOWED)
      else if (case parse_url_scheme env url of
                 None \<Rightarrow> False
               | Some scheme \<Rightarrow>
                   truthy_str scheme \<and> in_array_str env (strtolower scheme) dangerousSchemes)
      then Inl (FetchException INVALID_URL)
      else Inr ())"

section \<open>Note: content sanitisation\<close>

subsection \<open>\<^verbatim>\<open>strip_tags\<close>\<close>

text \<open>
  PHP's \<^verbatim>\<open>strip_tags($content, $allowed)\<close> is a scanner over the bytes of the input
  (\<^verbatim>\<open>php_strip_tags_ex\<close>). It is in one of five states: 0 outside any tag, 1 inside an HTML
  tag, 2 inside \<^verbatim>\<open><? ... ?>\<close>, 3 inside \<^verbatim>\<open><! ... >\<close>, 4 inside a comment. With an allow-list
  it collects the bytes of the current tag in a buffer and, at the closing \<^verbatim>\<open>>\<close>, copies the
  buffer to the output when \<^verbatim>\<open>php_tag_find\<close> finds the normalised tag in the list.
  The text between tags is copied as it is, NUL bytes apart: the contents of an element
  are never removed with its tags. \<open>in_q\<close> is the open quote character or NUL, \<open>lc\<close> the
  last significant character. The properties proved below involve the states 0 and 1 only.
\<close>

definition NUL :: char where
  "NUL = CHR 0x00"

definition DQUOTE :: char where
  "DQUOTE = CHR 0x22"

definition SQUOTE :: char where
  "SQUOTE = CHR 0x27"

record strip_state =
  state :: nat
  depth :: nat
  in_q :: char
  lc :: char
  br :: int
  is_xml :: bool
  tbuf :: string
  rbuf :: string

definition strip_init :: strip_state where
  "strip_init = \<lparr>state = 0, depth = 0, in_q = NUL, lc = NUL, br = 0, is_xml = False,
                  tbuf = [], rbuf = []\<rparr>"

text \<open>\<open>is_substr xs ys\<close>: C's \<^verbatim>\<open>strstr(ys, xs) != NULL\<close>.\<close>

fun is_prefix :: "string \<Rightarrow> string \<Rightarrow> bool" where
  "is_prefix [] ys = True"
| "is_prefix (x # xs) [] = False"
| "is_prefix (x # xs) (y # ys) = (x = y \<and> is_prefix xs ys)"

fun is_substr :: "string \<Rightarrow> string \<Rightarrow> bool" where
  "is_substr xs [] = (xs = [])"
| "is_substr xs (y # ys) = (is_prefix xs (y # ys) \<or> is_substr xs ys)"

text \<open>
  The normal form of a tag in \<^verbatim>\<open>php_tag_find\<close>: lower case, \<^verbatim>\<open><a whatever>\<close> becomes
  \<^verbatim>\<open><a>\<close>, \<^verbatim>\<open></tag>\<close> becomes \<^verbatim>\<open><tag>\<close>, the slash of a self-closing tag is dropped.
  \<open>started\<close> tells whether a character of the name has been seen.
\<close>

fun tag_norm :: "bool \<Rightarrow> string \<Rightarrow> string" where
  "tag_norm started [] = []"
| "tag_norm started (c # cs) =
     (let nxt = (case cs of [] \<Rightarrow> NUL | d # ds \<Rightarrow> d) in
      if c = CHR ''<'' then c # tag_norm started cs
      else if c = CHR ''>'' then []
      else if \<not> isspace (tolower c) then
        (if \<not> started
         then (if c \<noteq> CHR ''/'' \<or> nxt = CHR ''>'' then [tolower c] else []) @ tag_norm True cs
         else (if c \<noteq> CHR ''/'' \<or> nxt \<noteq> CHR ''>'' then [tolower c] else []) @ tag_norm True cs)
      else if started then []
      else tag_norm started cs)"

definition php_tag_find :: "string \<Rightarrow> string \<Rightarrow> bool" where
  "php_tag_find tag allow = (tag \<noteq> [] \<and> is_substr (tag_norm False tag @ ''>'') allow)"

text \<open>\<open>lookback prev k\<close> is the byte \<open>k + 1\<close> positions before the current one, if there is one.\<close>

definition lookback :: "string \<Rightarrow> nat \<Rightarrow> char option" where
  "lookback prev k = (if k < length prev then Some (prev ! k) else None)"

definition toggle_quote :: "char \<Rightarrow> char \<Rightarrow> char" where
  "toggle_quote c q = (if q = NUL then c else if c = q then NUL else q)"

text \<open>
  One step of the scanner on the byte \<open>c\<close>; \<open>prev\<close> holds the bytes before it, the nearest
  first, and \<open>nxt\<close> is the byte after it (NUL at the end of the input).
\<close>

definition step0 :: "char \<Rightarrow> char \<Rightarrow> strip_state \<Rightarrow> strip_state" where
  "step0 c nxt s =
     (if c = NUL then s
      else if c = CHR ''<'' then
        (if in_q s \<noteq> NUL then s
         else if isspace nxt then s\<lparr>rbuf := rbuf s @ [c]\<rparr>
         else s\<lparr>lc := CHR ''<'', state := 1, tbuf := tbuf s @ [CHR ''<'']\<rparr>)
      else if c = CHR ''>'' then
        (if depth s \<noteq> 0 then s\<lparr>depth := depth s - 1\<rparr>
         else if in_q s \<noteq> NUL then s
         else s\<lparr>rbuf := rbuf s @ [c]\<rparr>)
      else s\<lparr>rbuf := rbuf s @ [c]\<rparr>)"

definition step1 :: "string \<Rightarrow> string \<Rightarrow> char \<Rightarrow> char \<Rightarrow> strip_state \<Rightarrow> strip_state" where
  "step1 allow prev c nxt s =
     (if c = NUL then s
      else if c = CHR ''<'' then
        (if in_q s \<noteq> NUL then s
         else if isspace nxt then s\<lparr>tbuf := tbuf s @ [c]\<rparr>
         else s\<lparr>depth := depth s + 1\<rparr>)
      else if c = CHR ''>'' then
        (if depth s \<noteq> 0 then s\<lparr>depth := depth s - 1\<rparr>
         else if in_q s \<noteq> NUL then s
         else if is_xml s \<and> lookback prev 0 = Some CHR ''-'' then s\<lparr>lc := CHR ''>''\<rparr>
         else
           (let tag = tbuf s @ [CHR ''>''] in
            s\<lparr>lc := CHR ''>'', in_q := NUL, state := 0, is_xml := False, tbuf := [],
              rbuf := (if php_tag_find tag allow then rbuf s @ tag else rbuf s)\<rparr>))
      else if c = DQUOTE \<or> c = SQUOTE then
        (let s' = (if prev \<noteq> [] \<and> (in_q s = NUL \<or> c = in_q s)
                   then s\<lparr>in_q := toggle_quote c (in_q s)\<rparr> else s)
         in s'\<lparr>tbuf := tbuf s' @ [c]\<rparr>)
      else if c = CHR ''!'' \<and> lookback prev 0 = Some CHR ''<'' then s\<lparr>state := 3, lc := c\<rparr>
      else if c = CHR ''?'' \<and> lookback prev 0 = Some CHR ''<'' then s\<lparr>br := 0, state := 2\<rparr>
      else s\<lparr>tbuf := tbuf s @ [c]\<rparr>)"

definition step2 :: "string \<Rightarrow> char \<Rightarrow> strip_state \<Rightarrow> strip_state" where
  "step2 prev c s =
     (if c = CHR ''('' then
        (if lc s \<noteq> DQUOTE \<and> lc s \<noteq> SQUOTE then s\<lparr>lc := CHR ''('', br := br s + 1\<rparr> else s)
      else if c = CHR '')'' then
        (if lc s \<noteq> DQUOTE \<and> lc s \<noteq> SQUOTE then s\<lparr>lc := CHR '')'', br := br s - 1\<rparr> else s)
      else if c = CHR ''>'' then
        (if depth s \<noteq> 0 then s\<lparr>depth := depth s - 1\<rparr>
         else if in_q s \<noteq> NUL then s
         else if br s = 0 \<and> lc s \<noteq> DQUOTE \<and> lookback prev 0 = Some CHR ''?''
         then s\<lparr>in_q := NUL, state := 0, tbuf := []\<rparr>
         else s)
      else if c = DQUOTE \<or> c = SQUOTE then
        (if prev \<noteq> [] \<and> lookback prev 0 \<noteq> Some CHR 0x5C then
           (let s' = (if lc s = c then s\<lparr>lc := NUL\<rparr>
                      else if lc s \<noteq> CHR 0x5C then s\<lparr>lc := c\<rparr> else s)
            in if in_q s' = NUL \<or> c = in_q s' then s'\<lparr>in_q := toggle_quote c (in_q s')\<rparr> else s')
         else s)
      else if (c = CHR ''l'' \<or> c = CHR ''L'') \<and> 4 < length prev
              \<and> (lookback prev 0 = Some CHR ''m'' \<or> lookback prev 0 = Some CHR ''M'')
              \<and> (lookback prev 1 = Some CHR ''x'' \<or> lookback prev 1 = Some CHR ''X'')
              \<and> lookback prev 2 = Some CHR ''?'' \<and> lookback prev 3 = Some CHR ''<''
      then s\<lparr>state := 1, is_xml := True\<rparr>
      else s)"

definition step3 :: "string \<Rightarrow> char \<Rightarrow> strip_state \<Rightarrow> strip_state" where
  "step3 prev c s =
     (if c = CHR ''>'' then
        (if depth s \<noteq> 0 then s\<lparr>depth := depth s - 1\<rparr>
         else if in_q s \<noteq> NUL then s
         else s\<lparr>in_q := NUL, state := 0, tbuf := []\<rparr>)
      else if c = DQUOTE \<or> c = SQUOTE then
        (if prev \<noteq> [] \<and> lookback prev 0 \<noteq> Some CHR 0x5C \<and> (in_q s = NUL \<or> c = in_q s)
         then s\<lparr>in_q := toggle_quote c (in_q s)\<rparr> else s)
      else if c = CHR ''-'' \<and> lookback prev 0 = Some CHR ''-'' \<and> lookback prev 1 = Some CHR ''!''
      then s\<lparr>state := 4\<rparr>
      else if (c = CHR ''E'' \<or> c = CHR ''e'') \<and> 6 < length prev
              \<and> map tolower (take 6 prev) = ''pytcod''
      then s\<lparr>state := 1\<rparr>
      else s)"

definition step4 :: "string \<Rightarrow> char \<Rightarrow> strip_state \<Rightarrow> strip_state" where
  "step4 prev c s =
     (if c = CHR ''>'' \<and> in_q s = NUL \<and> lookback prev 0 = Some CHR ''-'' \<and> lookback prev 1 = Some CHR ''-''
      then s\<lparr>in_q := NUL, state := 0, is_xml := False, tbuf := []\<rparr>
      else s)"

definition strip_step :: "string \<Rightarrow> string \<Rightarrow> char \<Rightarrow> char \<Rightarrow> strip_state \<Rightarrow> strip_state" where
  "strip_step allow prev c nxt s =
     (if state s = 0 then step0 c nxt s
      else if state s = 1 then step1 allow prev c nxt s
      else if state s = 2 then step2 prev c s
      else if state s = 3 then step3 prev c s
      else step4 prev c s)"

fun strip_run :: "string \<Rightarrow> string \<Rightarrow> string \<Rightarrow> strip_state \<Rightarrow> strip_state" where
  "strip_run allow prev [] s = s"
| "strip_run allow prev (c # cs) s =
     strip_run allow (c # prev) cs
       (strip_step allow prev c (case cs of [] \<Rightarrow> NUL | d # ds \<Rightarrow> d) s)"

definition strip_tags :: "string \<Rightarrow> string \<Rightarrow> string" where
  "strip_tags content allowed = rbuf (strip_run (strtolower allowed) [] content strip_init)"

subsection \<open>\<^verbatim>\<open>htmlspecialchars\<close>\<close>

text \<open>
  \<^verbatim>\<open>htmlspecialchars($s, ENT_QUOTES | ENT_HTML5, 'UTF-8', false)\<close>. Without
  \<^verbatim>\<open>ENT_SUBSTITUTE\<close> or \<^verbatim>\<open>ENT_IGNORE\<close> the result is the empty string when \<open>s\<close> is not
  well-formed UTF-8. Otherwise the five special characters are replaced; the last argument
  (\<open>double_encode = false\<close>) only keeps an ampersand that already starts a character
  reference. The bytes of a kept reference are not special, so they are copied by the
  clauses for ordinary bytes.
\<close>

definition utf8_trail :: "char \<Rightarrow> bool" where
  "utf8_trail c = (let n = (of_char c :: nat) in 128 \<le> n \<and> n < 192)"

fun utf8_valid :: "string \<Rightarrow> bool" where
  "utf8_valid [] = True"
| "utf8_valid (c # cs) =
     (let n = (of_char c :: nat) in
      if n < 128 then utf8_valid cs
      else if n < 194 then False
      else if n < 224 then
        (case cs of
           c1 # r \<Rightarrow> utf8_trail c1 \<and> utf8_valid r
         | _ \<Rightarrow> False)
      else if n < 240 then
        (case cs of
           c1 # c2 # r \<Rightarrow>
             utf8_trail c1 \<and> utf8_trail c2 \<and>
             (let cp = (n mod 16) * 4096 + (of_char c1 mod 64) * 64 + (of_char c2 mod 64 :: nat)
              in 2048 \<le> cp \<and> \<not> (55296 \<le> cp \<and> cp \<le> 57343)) \<and> utf8_valid r
         | _ \<Rightarrow> False)
      else if n < 245 then
        (case cs of
           c1 # c2 # c3 # r \<Rightarrow>
             utf8_trail c1 \<and> utf8_trail c2 \<and> utf8_trail c3 \<and>
             (let cp = (n mod 8) * 262144 + (of_char c1 mod 64) * 4096
                       + (of_char c2 mod 64) * 64 + (of_char c3 mod 64 :: nat)
              in 65536 \<le> cp \<and> cp \<le> 1114111) \<and> utf8_valid r
         | _ \<Rightarrow> False)
      else False)"

definition digit_val :: "char \<Rightarrow> nat" where
  "digit_val c = (let n = (of_char c :: nat) in
     if 48 \<le> n \<and> n \<le> 57 then n - 48 else if 97 \<le> n then n - 87 else n - 55)"

definition numeric_entity :: "string \<Rightarrow> bool" where
  "numeric_entity r =
     (let hex = (case r of [] \<Rightarrow> False | c # cs \<Rightarrow> c = CHR ''x'' \<or> c = CHR ''X'');
          r' = (if hex then tl r else r);
          isd = (if hex then isxdigit else isdigit);
          ds = takeWhile isd r';
          rest = dropWhile isd r'
      in ds \<noteq> [] \<and> (case rest of [] \<Rightarrow> False | c # cs \<Rightarrow> c = CHR '';'')
         \<and> foldl (\<lambda>v d. v * (if hex then 16 else 10) + digit_val d) 0 ds \<le> 1114111)"

definition valid_entity :: "php \<Rightarrow> string \<Rightarrow> bool" where
  "valid_entity env r =
     (case r of
        [] \<Rightarrow> False
      | c # cs \<Rightarrow>
          if c = CHR ''#'' then numeric_entity cs
          else
            (let name = takeWhile isalnum r; rest = dropWhile isalnum r
             in (case rest of [] \<Rightarrow> False | d # ds \<Rightarrow> d = CHR '';'')
                \<and> name \<noteq> [] \<and> html5_entity env name))"

fun escape_html :: "php \<Rightarrow> string \<Rightarrow> string" where
  "escape_html env [] = []"
| "escape_html env (c # cs) =
     (if c = CHR ''&'' then (if valid_entity env cs then ''&'' else ''&amp;'')
      else if c = DQUOTE then ''&quot;''
      else if c = SQUOTE then ''&apos;''
      else if c = CHR ''<'' then ''&lt;''
      else if c = CHR ''>'' then ''&gt;''
      else [c]) @ escape_html env cs"

definition htmlspecialchars :: "php \<Rightarrow> string \<Rightarrow> string" where
  "htmlspecialchars env s = (if utf8_valid s then escape_html env s else [])"

subsection \<open>\<^verbatim>\<open>mb_strlen\<close> and \<^verbatim>\<open>mb_substr\<close> in UTF-8\<close>

text \<open>
  The length of a character is read off its first byte; \<open>mb_count k s\<close> counts the
  characters of \<open>s\<close> after skipping \<open>k\<close> bytes that still belong to the character before,
  and \<open>mb_prefix n k s\<close> is the bytes of these \<open>k\<close> bytes and the \<open>n\<close> characters after them.
  On well-formed UTF-8 these are the number of code points and the first \<open>n\<close> code points.
\<close>

definition mblen :: "char \<Rightarrow> nat" where
  "mblen c = (let n = (of_char c :: nat) in
     if n < 194 then 1 else if n < 224 then 2 else if n < 240 then 3 else if n < 245 then 4 else 1)"

fun mb_count :: "nat \<Rightarrow> string \<Rightarrow> nat" where
  "mb_count k [] = 0"
| "mb_count 0 (c # cs) = Suc (mb_count (mblen c - 1) cs)"
| "mb_count (Suc k) (c # cs) = mb_count k cs"

fun mb_prefix :: "nat \<Rightarrow> nat \<Rightarrow> string \<Rightarrow> string" where
  "mb_prefix n k [] = []"
| "mb_prefix n (Suc k) (c # cs) = c # mb_prefix n k cs"
| "mb_prefix 0 0 (c # cs) = []"
| "mb_prefix (Suc n) 0 (c # cs) = c # mb_prefix n (mblen c - 1) cs"

definition mb_strlen :: "string \<Rightarrow> nat" where
  "mb_strlen s = mb_count 0 s"

definition mb_substr0 :: "string \<Rightarrow> nat \<Rightarrow> string" where
  "mb_substr0 s n = mb_prefix n 0 s"

subsection \<open>\<^verbatim>\<open>Note::sanitizeContent\<close>\<close>

definition allowedTags :: string where
  "allowedTags = ''<p><br><a><strong><em><b><i><u><s><code><pre><blockquote><ul><ol><li>''"

definition sanitizeContent :: "php \<Rightarrow> string \<Rightarrow> string" where
  "sanitizeContent env content =
     (let sanitized = strip_tags content allowedTags;
          sanitized = htmlspecialchars env sanitized
      in if mb_strlen sanitized > 10000 then mb_substr0 sanitized 10000 @ ''...''
         else sanitized)"

section \<open>Note: the entity\<close>

subsection \<open>Formatting an instant in \<^verbatim>\<open>Asia/Tokyo\<close>\<close>

text \<open>
  \<^verbatim>\<open>$publishedAt->setTimezone(new DateTimeZone('Asia/Tokyo'))->format(...)\<close> with the
  pattern year, month, day, each followed by its ideograph, then \<^verbatim>\<open>H:i\<close>: the civil date of
  the local time, from the day number in the proleptic Gregorian calendar. The three
  ideographs (\<open>NEN\<close>, \<open>GATSU\<close>, \<open>NICHI\<close>) are written as their UTF-8 bytes.
\<close>

definition zero_pad :: "nat \<Rightarrow> nat \<Rightarrow> string" where
  "zero_pad w n = replicate (w - length (decimal n)) (CHR ''0'') @ decimal n"

definition civil_from_days :: "int \<Rightarrow> int \<times> nat \<times> nat" where
  "civil_from_days days =
     (let z = days + 719468;
          era = z div 146097;
          doe = z - era * 146097;
          yoe = (doe - doe div 1460 + doe div 36524 - doe div 146096) div 365;
          doy = doe - (365 * yoe + yoe div 4 - yoe div 100);
          mp = (5 * doy + 2) div 153;
          d = doy - (153 * mp + 2) div 5 + 1;
          m = (if mp < 10 then mp + 3 else mp - 9);
          y = yoe + era * 400 + (if m \<le> 2 then 1 else 0)
      in (y, nat m, nat d))"

definition format_year :: "int \<Rightarrow> string" where
  "format_year y = (if y < 0 then CHR ''-'' # zero_pad 4 (nat (- y)) else zero_pad 4 (nat y))"

definition NEN :: string where
  "NEN = [CHR 0xE5, CHR 0xB9, CHR 0xB4]"

definition GATSU :: string where
  "GATSU = [CHR 0xE6, CHR 0x9C, CHR 0x88]"

definition NICHI :: string where
  "NICHI = [CHR 0xE6, CHR 0x97, CHR 0xA5]"

definition format_tokyo :: "php \<Rightarrow> int \<Rightarrow> string" where
  "format_tokyo env t =
     (let local = t + tokyo_offset env t;
          secs = local mod 86400
      in case civil_from_days (local div 86400) of
           (y, m, d) \<Rightarrow>
             format_year y @ NEN @ zero_pad 2 m @ GATSU @ zero_pad 2 d @ NICHI @ '' ''
             @ zero_pad 2 (nat (secs div 3600)) @ '':'' @ zero_pad 2 (nat ((secs mod 3600) div 60)))"

subsection \<open>\<^verbatim>\<open>Note::fromArray\<close>\<close>

text \<open>
  The arrays that \<^verbatim>\<open>fromArray\<close> builds (attachments, author) are PHP arrays and are kept
  as \<open>json\<close> values. \<open>publishedAt\<close> is the instant in seconds.
\<close>

record Note =
  note_id :: string
  content :: string
  sanitizedContent :: string
  publishedAt :: int
  formattedDate :: string
  url :: "string option"
  attachments :: "json list"
  author :: json

definition or_default :: "json option \<Rightarrow> json \<Rightarrow> json" where
  "or_default v d = (case v of None \<Rightarrow> d | Some x \<Rightarrow> x)"

text \<open>
  \<^verbatim>\<open>new DateTimeImmutable($data['published'] ?? 'now')\<close>: the clock when the field is
  missing, else the instant the string denotes; a malformed string throws.
\<close>

definition published_instant :: "php \<Rightarrow> int \<Rightarrow> json \<Rightarrow> throwable + int" where
  "published_instant env now data =
     (case php_index data ''published'' of
        None \<Rightarrow> Inr now
      | Some v \<Rightarrow>
          (case to_string v of
             None \<Rightarrow> Inl TypeError
           | Some s \<Rightarrow>
               (case date_create env now s of
                  None \<Rightarrow> Inl DateException
                | Some t \<Rightarrow> Inr t)))"

text \<open>One round of the loop over \<^verbatim>\<open>$data['attachment']\<close>: the entry to append, if any.\<close>

definition build_attachment :: "json \<Rightarrow> throwable + json option" where
  "build_attachment att =
     (case (php_index att ''type'', php_index att ''url'') of
        (Some ty, Some u) \<Rightarrow>
          (case to_string ty of
             None \<Rightarrow> Inl TypeError
           | Some t \<Rightarrow>
               (let attachment =
                      [(''type'', JStr (strtolower t)), (''url'', u),
                       (''alt_text'', or_default (php_index att ''name'') (JStr []))]
                in Inr (Some (JObj
                     (if strtolower t = ''image''
                      then attachment @
                           [(''width'', or_default (php_index att ''width'') JNull),
                            (''height'', or_default (php_index att ''height'') JNull)]
                      else attachment)))))
      | _ \<Rightarrow> Inr None)"

fun build_attachments :: "json list \<Rightarrow> json list \<Rightarrow> throwable + json list" where
  "build_attachments [] acc = Inr acc"
| "build_attachments (att # atts) acc =
     (case build_attachment att of
        Inl e \<Rightarrow> Inl e
      | Inr None \<Rightarrow> build_attachments atts acc
      | Inr (Some a) \<Rightarrow> build_attachments atts (acc @ [a]))"

definition note_attachments :: "json \<Rightarrow> throwable + json list" where
  "note_attachments data =
     (case php_index data ''attachment'' of
        None \<Rightarrow> Inr []
      | Some v \<Rightarrow> if is_array v then build_attachments (array_values v) [] else Inr [])"

definition note_author :: "json \<Rightarrow> json" where
  "note_author data =
     (case php_index data ''attributedTo'' of
        None \<Rightarrow> JArr []
      | Some a \<Rightarrow>
          if is_string a then
            JObj [(''id'', a), (''name'', JStr ''Unknown User''), (''avatar'', JNull)]
          else if is_array a then
            JObj [(''id'', or_default (php_index a ''id'') (JStr [])),
                  (''name'', or_default (php_index a ''name'')
                               (or_default (php_index a ''preferredUsername'') (JStr ''Unknown User''))),
                  (''avatar'', or_default
                     (case php_index a ''icon'' of None \<Rightarrow> None | Some i \<Rightarrow> php_index i ''url'')
                     JNull)]
          else JArr [])"

definition fromArray :: "php \<Rightarrow> int \<Rightarrow> json \<Rightarrow> throwable + Note" where
  "fromArray env now data =
     (case published_instant env now data of
        Inl e \<Rightarrow> Inl e
      | Inr instant \<Rightarrow>
          (case note_attachments data of
             Inl e \<Rightarrow> Inl e
           | Inr atts \<Rightarrow>
               (case (to_string (or_default (php_index data ''content'') (JStr [])),
                      to_string (or_default (php_index data ''id'') (JStr [])),
                      map_option to_string (php_index data ''url'')) of
                  (Some originalContent, Some i, None) \<Rightarrow>
                    Inr \<lparr>note_id = i, content = originalContent,
                         sanitizedContent = sanitizeContent env originalContent,
                         publishedAt = instant,
                         formattedDate = format_tokyo env instant,
                         url = None, attachments = atts, author = note_author data\<rparr>
                | (Some originalContent, Some i, Some (Some u)) \<Rightarrow>
                    Inr \<lparr>note_id = i, content = originalContent,
                         sanitizedContent = sanitizeContent env originalContent,
                         publishedAt = instant,
                         formattedDate = format_tokyo env instant,
                         url = Some u, attachments = atts, author = note_author data\<rparr>
                | _ \<Rightarrow> Inl TypeError)))"

definition toArray :: "php \<Rightarrow> Note \<Rightarrow> json" where
  "toArray env n =
     JObj [(''id'', JStr (note_id n)),
           (''content'', JStr (sanitizedContent n)),
           (''published_at'', JStr (date_format env ''c'' (publishedAt n))),
           (''formatted_date'', JStr (formattedDate n)),
           (''url'', (case url n of None \<Rightarrow> JNull | Some u \<Rightarrow> JStr u)),
           (''attachments'', JArr (attachments n)),
           (''author'', author n)]"

section \<open>Client\<close>

subsection \<open>The network and \<^verbatim>\<open>httpGet\<close>\<close>

text \<open>
  The remote servers are a function from the URL of a GET request to what cURL reports:
  a transport failure (DNS, connect, TLS, timeout), or the final status code with the body,
  \<open>None\<close> when the body is not JSON. During one run a URL is answered the same way each
  time it is requested. \<^verbatim>\<open>httpGet\<close> is declared to return an array: a body that decodes to
  a scalar or to null makes the \<^verbatim>\<open>return\<close> raise a TypeError.
\<close>

datatype http_reply = CurlError | HttpResponse int "json option"

type_synonym network = "string \<Rightarrow> http_reply"

definition httpGet :: "network \<Rightarrow> string \<Rightarrow> throwable + json" where
  "httpGet net u =
     (case net u of
        CurlError \<Rightarrow> Inl (FetchException NETWORK_ERROR)
      | HttpResponse httpCode body \<Rightarrow>
          if httpCode < 200 \<or> httpCode \<ge> 300 then Inl (FetchException HTTP_ERROR)
          else (case body of
                  None \<Rightarrow> Inl (ParseException JSON_ERROR)
                | Some decodedData \<Rightarrow>
                    if is_array decodedData then Inr decodedData else Inl TypeError))"

subsection \<open>\<^verbatim>\<open>processOrderedItems\<close>\<close>

text \<open>
  The first half of the loop body: which object, if any, the item yields
  (\<^verbatim>\<open>$noteObject\<close>, \<open>JNull\<close> for null), together with the URLs requested for it, in order.
  \<open>Continue\<close> is the \<^verbatim>\<open>continue\<close> in the branch for an item that is itself a URL;
  \<open>Throw\<close> is a throwable that no \<^verbatim>\<open>catch (Exception $e)\<close> of the loop catches.
\<close>

datatype resolution = NoteObject json | Continue | Throw throwable

definition resolve_item :: "php \<Rightarrow> network \<Rightarrow> json \<Rightarrow> resolution \<times> string list" where
  "resolve_item env net item =
     (if php_index item ''type'' = Some (JStr ''Announce'') \<and> isset item ''object'' then
        (case php_index item ''object'' of
           Some (JStr u) \<Rightarrow>
             if filter_validate_url env u then
               (case httpGet net u of
                  Inr originalPost \<Rightarrow>
                    if php_index originalPost ''type'' = Some (JStr ''Note'')
                    then (NoteObject originalPost, [u])
                    else (NoteObject JNull, [u])
                | Inl e \<Rightarrow> if is_Exception e then (NoteObject JNull, [u]) else (Throw e, [u]))
             else (NoteObject JNull, [])
         | _ \<Rightarrow> (NoteObject JNull, []))
      else if php_index item ''type'' = Some (JStr ''Create'') \<and> isset item ''object'' then
        (case php_index item ''object'' of
           Some (JStr u) \<Rightarrow>
             if filter_validate_url env u then
               (case httpGet net u of
                  Inr fetched \<Rightarrow> (NoteObject fetched, [u])
                | Inl e \<Rightarrow> if is_Exception e then (NoteObject JNull, [u]) else (Throw e, [u]))
             else (NoteObject JNull, [])
         | Some obj \<Rightarrow> if is_array obj then (NoteObject obj, []) else (NoteObject JNull, [])
         | None \<Rightarrow> (NoteObject JNull, []))
      else if php_index item ''type'' = Some (JStr ''Note'') then (NoteObject item, [])
      else
        (case item of
           JStr u \<Rightarrow>
             if filter_validate_url env u then
               (case httpGet net u of
                  Inr activityJson \<Rightarrow>
                    if php_index activityJson ''type'' = Some (JStr ''Create'')
                       \<and> isset activityJson ''object''
                    then (NoteObject (the (php_index activityJson ''object'')), [u])
                    else (NoteObject JNull, [u])
                | Inl e \<Rightarrow> if is_Exception e then (Continue, [u]) else (Throw e, [u]))
             else (NoteObject JNull, [])
         | _ \<Rightarrow> (NoteObject JNull, [])))"

text \<open>
  The second half: \<^verbatim>\<open>if ($noteObject && Validator::validateNoteObject($noteObject))\<close>.
  The validator's parameter is an array: a true value that is not an array raises a
  TypeError. \<open>Parsed\<close> appends a note and counts it, \<open>Unparsed\<close> appends the item to
  \<^verbatim>\<open>$debug_unparsed_items\<close>, \<open>Skipped\<close> does neither.
\<close>

datatype item_result = Parsed Note | Unparsed | Skipped

definition process_item ::
  "php \<Rightarrow> network \<Rightarrow> int \<Rightarrow> json \<Rightarrow> (throwable + item_result) \<times> string list" where
  "process_item env net now item =
     (case resolve_item env net item of
        (Throw e, urls) \<Rightarrow> (Inl e, urls)
      | (Continue, urls) \<Rightarrow> (Inr Skipped, urls)
      | (NoteObject noteObject, urls) \<Rightarrow>
          if truthy noteObject then
            (if \<not> is_array noteObject then (Inl TypeError, urls)
             else if validateNoteObject noteObject then
               (case fromArray env now noteObject of
                  Inl e \<Rightarrow> (Inl e, urls)
                | Inr n \<Rightarrow> (Inr (Parsed n), urls))
             else (Inr Unparsed, urls))
          else (Inr Unparsed, urls))"

text \<open>
  The state of the loop: the local \<^verbatim>\<open>$notes\<close>, the two reference parameters, and the URLs
  requested so far.
\<close>

record loop_state =
  note_list :: "Note list"
  processedCount :: int
  debug_unparsed_items :: "json list"
  requested :: "string list"

fun process_loop ::
  "php \<Rightarrow> network \<Rightarrow> int \<Rightarrow> int \<Rightarrow> json list \<Rightarrow> loop_state \<Rightarrow> throwable + loop_state" where
  "process_loop env net now maxPosts [] st = Inr st"
| "process_loop env net now maxPosts (item # rest) st =
     (if processedCount st \<ge> maxPosts then Inr st
      else
        (case process_item env net now item of
           (Inl e, urls) \<Rightarrow> Inl e
         | (Inr (Parsed n), urls) \<Rightarrow>
             process_loop env net now maxPosts rest
               (st\<lparr>note_list := note_list st @ [n], processedCount := processedCount st + 1,
                   requested := requested st @ urls\<rparr>)
         | (Inr Unparsed, urls) \<Rightarrow>
             process_loop env net now maxPosts rest
               (st\<lparr>debug_unparsed_items := debug_unparsed_items st @ [item],
                   requested := requested st @ urls\<rparr>)
         | (Inr Skipped, urls) \<Rightarrow>
             process_loop env net now maxPosts rest (st\<lparr>requested := requested st @ urls\<rparr>)))"

definition processOrderedItems ::
  "php \<Rightarrow> network \<Rightarrow> int \<Rightarrow> json list \<Rightarrow> int \<Rightarrow> int \<Rightarrow> json list \<Rightarrow> throwable + loop_state" where
  "processOrderedItems env net now orderedItems maxPosts count0 unparsed0 =
     process_loop env net now maxPosts orderedItems
       \<lparr>note_list = [], processedCount = count0, debug_unparsed_items = unparsed0, requested = []\<rparr>"

subsection \<open>\<^verbatim>\<open>extractNotesFromOutbox\<close>\<close>

text \<open>
  The debug lines at the head of the function call \<^verbatim>\<open>count\<close> on \<^verbatim>\<open>orderedItems\<close> and on
  \<^verbatim>\<open>items\<close> whenever they are set; \<^verbatim>\<open>count\<close> of a value that is not an array raises a
  TypeError. \<^verbatim>\<open>$processedCount\<close> starts at 0. The result holds the note_list, the unparsed items
  and the URLs requested.
\<close>

definition countable_or_unset :: "json \<Rightarrow> string \<Rightarrow> bool" where
  "countable_or_unset v k = (case php_index v k of None \<Rightarrow> True | Some x \<Rightarrow> is_array x)"

definition items_of_page :: "json \<Rightarrow> json list option" where
  "items_of_page page =
     (case php_index page ''orderedItems'' of
        Some v \<Rightarrow> if is_array v then Some (array_values v) else
          (case php_index page ''items'' of
             Some w \<Rightarrow> if is_array w then Some (array_values w) else None
           | None \<Rightarrow> None)
      | None \<Rightarrow>
          (case php_index page ''items'' of
             Some w \<Rightarrow> if is_array w then Some (array_values w) else None
           | None \<Rightarrow> None))"

definition extractNotesFromOutbox ::
  "php \<Rightarrow> network \<Rightarrow> int \<Rightarrow> json \<Rightarrow> int \<Rightarrow> json list \<Rightarrow> throwable + loop_state" where
  "extractNotesFromOutbox env net now outboxJson maxPosts unparsed0 =
     (if \<not> countable_or_unset outboxJson ''orderedItems'' \<or> \<not> countable_or_unset outboxJson ''items''
      then Inl TypeError
      else
        (case items_of_page outboxJson of
           Some its \<Rightarrow> processOrderedItems env net now its maxPosts 0 unparsed0
         | None \<Rightarrow>
             (case php_index outboxJson ''first'' of
                None \<Rightarrow> Inr \<lparr>note_list = [], processedCount = 0, debug_unparsed_items = unparsed0,
                              requested = []\<rparr>
              | Some first \<Rightarrow>
                  (let firstPageUrl =
                         (if is_string first then first else or_default (php_index first ''id'') JNull)
                   in if \<not> truthy firstPageUrl
                      then Inr \<lparr>note_list = [], processedCount = 0, debug_unparsed_items = unparsed0,
                                requested = []\<rparr>
                      else
                        (case to_string firstPageUrl of
                           None \<Rightarrow> Inl TypeError
                         | Some u \<Rightarrow>
                             (case httpGet net u of
                                Inl e \<Rightarrow> Inl e
                              | Inr firstPageJson \<Rightarrow>
                                  (case items_of_page firstPageJson of
                                     Some its \<Rightarrow>
                                       (case processOrderedItems env net now its maxPosts 0 unparsed0 of
                                          Inl e \<Rightarrow> Inl e
                                        | Inr st \<Rightarrow> Inr (st\<lparr>requested := u # requested st\<rparr>))
                                   | None \<Rightarrow>
                                       Inr \<lparr>note_list = [], processedCount = 0,
                                            debug_unparsed_items = unparsed0,
                                            requested = [u]\<rparr>)))))))"

subsection \<open>\<^verbatim>\<open>extractActorInfo\<close> and \<^verbatim>\<open>fetch\<close>\<close>

definition extractActorInfo :: "json \<Rightarrow> throwable + json" where
  "extractActorInfo actorData =
     (case to_string (or_default (php_index actorData ''summary'') (JStr [])) of
        None \<Rightarrow> Inl TypeError
      | Some summary \<Rightarrow>
          Inr (JObj
            [(''id'', or_default (php_index actorData ''id'') (JStr [])),
             (''name'', or_default (php_index actorData ''name'')
                          (or_default (php_index actorData ''preferredUsername'') (JStr ''Unknown''))),
             (''preferredUsername'', or_default (php_index actorData ''preferredUsername'') (JStr [])),
             (''summary'', JStr (strip_tags summary [])),
             (''url'', or_default (php_index actorData ''url'') (JStr [])),
             (''avatar'', or_default
                (case php_index actorData ''icon'' of None \<Rightarrow> None | Some i \<Rightarrow> php_index i ''url'')
                JNull),
             (''header'', or_default
                (case php_index actorData ''image'' of None \<Rightarrow> None | Some i \<Rightarrow> php_index i ''url'')
                JNull),
             (''followers_count'', or_default (php_index actorData ''followers'') (JNum 0)),
             (''following_count'', or_default (php_index actorData ''following'') (JNum 0))]))"

record meta_info =
  count :: nat
  fetched_at :: string
  actor_url :: string
  outbox_url :: json

text \<open>
  The array that \<^verbatim>\<open>fetch\<close> returns. It has no entry for the unparsed items: they are
  collected and then dropped.
\<close>

record fetch_result =
  posts :: "Note list"
  actor_info :: json
  meta :: meta_info
  debug_outbox_page :: json
  debug_test :: string

text \<open>
  \<open>fetch\<close> returns the result together with the URLs requested, in order, or the throwable
  that ends it.
\<close>

definition fetch ::
  "php \<Rightarrow> network \<Rightarrow> string list \<Rightarrow> int \<Rightarrow> string \<Rightarrow> int
   \<Rightarrow> throwable + (fetch_result \<times> string list)" where
  "fetch env net allowedDomains now actorUrl maxPosts =
     (case validateUrl env actorUrl allowedDomains of
        Inl e \<Rightarrow> Inl e
      | Inr u0 \<Rightarrow>
     (case httpGet net actorUrl of
        Inl e \<Rightarrow> Inl e
      | Inr actorJson \<Rightarrow>
     if \<not> validateActorObject env actorJson then Inl (ParseException INVALID_ACTOR)
     else
       (let outboxUrl = or_default (php_index actorJson ''outbox'') JNull in
        if \<not> truthy outboxUrl then Inl (ParseException NO_OUTBOX)
        else
     (case to_string outboxUrl of
        None \<Rightarrow> Inl TypeError
      | Some ob \<Rightarrow>
     (case httpGet net ob of
        Inl e \<Rightarrow> Inl e
      | Inr outboxCollection \<Rightarrow>
     (case (case php_index outboxCollection ''first'' of
              Some (JStr f) \<Rightarrow> map_sum id (\<lambda>pg. (pg, [f])) (httpGet net f)
            | _ \<Rightarrow> Inr (outboxCollection, [])) of
        Inl e \<Rightarrow> Inl e
      | Inr (outboxPage, pageUrls) \<Rightarrow>
     if \<not> validateOutboxCollection outboxPage then Inl (ParseException INVALID_NOTE)
     else
     (case extractNotesFromOutbox env net now outboxPage maxPosts [] of
        Inl e \<Rightarrow> Inl e
      | Inr extractResult \<Rightarrow>
     (case extractActorInfo actorJson of
        Inl e \<Rightarrow> Inl e
      | Inr actorInfo \<Rightarrow>
          Inr (\<lparr>posts = note_list extractResult,
                actor_info = actorInfo,
                meta = \<lparr>count = length (note_list extractResult),
                         fetched_at = date_format env ''c'' now,
                         actor_url = actorUrl,
                         outbox_url = outboxUrl\<rparr>,
                debug_outbox_page = outboxPage,
                debug_test = ''THIS_IS_A_TEST_'' @ date_format env ''H:i:s'' now\<rparr>,
               [actorUrl, ob] @ pageUrls @ requested extractResult)))))))))"

section \<open>The API entry point\<close>

text \<open>
  The \<^verbatim>\<open>fetch_posts\<close> action of \<^verbatim>\<open>api.php\<close>, from the clamping of \<^verbatim>\<open>max_posts\<close> on: the
  client is built with an empty allow-list, and the response data are assembled from the
  result of \<open>fetch\<close>. \<^verbatim>\<open>$result['debug_outbox_page'] ?? null\<close> is the entry itself, as
  \<open>fetch\<close> always sets it.
\<close>

record response_data =
  r_posts :: "json list"
  r_actor_info :: json
  r_meta :: meta_info
  r_debug_outbox_page :: json
  r_debug_test :: json

definition clamp_max_posts :: "int \<Rightarrow> int" where
  "clamp_max_posts maxPosts = min (max maxPosts 1) 50"

definition fetch_posts :: "php \<Rightarrow> network \<Rightarrow> int \<Rightarrow> string \<Rightarrow> int \<Rightarrow> throwable + response_data" where
  "fetch_posts env net now actorUrl maxPosts =
     (case fetch env net [] now actorUrl (clamp_max_posts maxPosts) of
        Inl e \<Rightarrow> Inl e
      | Inr (result, urls) \<Rightarrow>
          Inr \<lparr>r_posts = map (toArray env) (posts result),
               r_actor_info = actor_info result,
               r_meta = meta result,
               r_debug_outbox_page = debug_outbox_page result,
               r_debug_test = JStr (debug_test result)\<rparr>)"

text \<open>
  The scanner is idle between two tags: in state 0, no nesting, no open quote, an empty tag
  buffer.
\<close>

definition idle :: "strip_state \<Rightarrow> bool" where
  "idle s = (state s = 0 \<and> depth s = 0 \<and> in_q s = NUL \<and> \<not> is_xml s \<and> tbuf s = [])"

section \<open>Notions used in the statements\<close>

subsection \<open>Markup made of text and simple tags\<close>

text \<open>
  A content string seen as a sequence of segments: a piece of text without NUL and
  without angle brackets, or a tag \<^verbatim>\<open><body>\<close>. The body of a simple tag has no NUL and no
  angle bracket, does not start with white space, \<^verbatim>\<open>!\<close> or \<^verbatim>\<open>?\<close>, and closes every quote it
  opens (\<open>quote_scan\<close> follows the quotes as the scanner does inside a tag).
  \<open>tag_name\<close> is the name that \<^verbatim>\<open>php_tag_find\<close> looks up.
\<close>

datatype segment = Text string | Tag string

fun render :: "segment \<Rightarrow> string" where
  "render (Text t) = t"
| "render (Tag b) = CHR ''<'' # b @ ''>''"

definition render_all :: "segment list \<Rightarrow> string" where
  "render_all segs = concat (map render segs)"

definition text_char :: "char \<Rightarrow> bool" where
  "text_char c = (c \<noteq> NUL \<and> c \<noteq> CHR ''<'' \<and> c \<noteq> CHR ''>'')"

fun quote_scan :: "char \<Rightarrow> string \<Rightarrow> char" where
  "quote_scan q [] = q"
| "quote_scan q (c # cs) =
     quote_scan (if c = DQUOTE \<or> c = SQUOTE then toggle_quote c q else q) cs"

fun seg_ok :: "segment \<Rightarrow> bool" where
  "seg_ok (Text t) = list_all text_char t"
| "seg_ok (Tag b) =
     (case b of
        [] \<Rightarrow> False
      | c # cs \<Rightarrow> \<not> isspace c \<and> c \<noteq> CHR ''!'' \<and> c \<noteq> CHR ''?''
                 \<and> list_all text_char b \<and> quote_scan NUL b = NUL)"

definition tag_name :: "string \<Rightarrow> string" where
  "tag_name b = tl (tag_norm False (CHR ''<'' # b @ ''>''))"

definition whitelist :: "string list" where
  "whitelist = [''p'', ''br'', ''a'', ''strong'', ''em'', ''b'', ''i'', ''u'', ''s'', ''code'', ''pre'',
                ''blockquote'', ''ul'', ''ol'', ''li'']"

fun kept :: "segment \<Rightarrow> bool" where
  "kept (Text t) = True"
| "kept (Tag b) = (tag_name b \<in> set whitelist)"

text \<open>A plain character: ASCII, not NUL, and none of the five characters HTML escapes.\<close>

definition plain :: "char \<Rightarrow> bool" where
  "plain c = ((of_char c :: nat) < 128 \<and> c \<noteq> NUL \<and> c \<noteq> CHR ''<'' \<and> c \<noteq> CHR ''>''
              \<and> c \<noteq> CHR ''&'' \<and> c \<noteq> DQUOTE \<and> c \<noteq> SQUOTE)"

subsection \<open>The outcome of the loop on a list of items\<close>




definition is_ok :: "'e + 'a \<Rightarrow> bool" where
  "is_ok r = (case r of Inl e \<Rightarrow> False | Inr x \<Rightarrow> True)"

subsection \<open>A sample of servers and of library results\<close>

text \<open>
  Concrete inputs for the examples: what PHP's URL functions return on the URLs that
  occur, one absolute date, Japan's offset of nine hours, a server clock in UTC, a few
  entity names, and the comparison of a numeric string with itself. \<open>sample_net\<close> is a small federation: an actor on \<^verbatim>\<open>good.example\<close> whose outbox
  points to a first page with five entries and a link to a second page. The document at
  \<^verbatim>\<open>notes/6\<close> is the JSON value \<^verbatim>\<open>null\<close>.
\<close>

definition sample_urls :: "(string \<times> string \<times> string) list" where
  "sample_urls =
     [(''https://good.example/actor'', ''https'', ''good.example''),
      (''https://good.example/outbox'', ''https'', ''good.example''),
      (''https://good.example/outbox?page=1'', ''https'', ''good.example''),
      (''https://good.example/outbox?page=2'', ''https'', ''good.example''),
      (''https://good.example/notes/2'', ''https'', ''good.example''),
      (''https://good.example/notes/3'', ''https'', ''good.example''),
      (''https://good.example/notes/4'', ''https'', ''good.example''),
      (''https://good.example/act/5'', ''https'', ''good.example''),
      (''https://good.example/notes/6'', ''https'', ''good.example''),
      (''https://0/actor'', ''https'', ''0''),
      (''https://blocked.example/actor'', ''https'', ''blocked.example''),
      (''http://x/actor'', ''http'', ''x'')]"

definition time_of_day :: "int \<Rightarrow> string" where
  "time_of_day t =
     (let secs = t mod 86400
      in zero_pad 2 (nat (secs div 3600)) @ '':'' @ zero_pad 2 (nat ((secs mod 3600) div 60))
         @ '':'' @ zero_pad 2 (nat (secs mod 60)))"

definition iso8601_utc :: "int \<Rightarrow> string" where
  "iso8601_utc t =
     (case civil_from_days (t div 86400) of
        (y, m, d) \<Rightarrow>
          format_year y @ ''-'' @ zero_pad 2 m @ ''-'' @ zero_pad 2 d @ ''T'' @ time_of_day t
          @ ''+00:00'')"

definition php_sample :: php where
  "php_sample =
     \<lparr>filter_validate_url = (\<lambda>s. s \<in> set (map fst sample_urls)),
      parse_url_host = (\<lambda>s. map_option snd (map_of sample_urls s)),
      parse_url_scheme = (\<lambda>s. map_option fst (map_of sample_urls s)),
      date_create = (\<lambda>now s. if s = ''2024-08-10T12:34:56+00:00'' then Some 1723293296 else None),
      tokyo_offset = (\<lambda>t. 32400),
      date_format = (\<lambda>f t. if f = ''H:i:s'' then time_of_day t else iso8601_utc t),
      html5_entity = (\<lambda>n. n \<in> set [''amp'', ''lt'', ''gt'', ''quot'', ''apos'', ''nbsp'']),
      numeric_eq = (\<lambda>a b. a = b)\<rparr>"

definition note_n1 :: json where
  "note_n1 = JObj [(''type'', JStr ''Note''), (''id'', JStr ''n1''), (''content'', JStr ''hi'')]"

definition note_n2 :: json where
  "note_n2 = JObj [(''type'', JStr ''Note''), (''id'', JStr ''n2''), (''content'', JStr ''hey''),
                   (''published'', JStr ''2024-08-10T12:34:56+00:00'')]"

definition note_n4 :: json where
  "note_n4 = JObj [(''type'', JStr ''Note''), (''id'', JStr ''n4''), (''content'', JStr ''boosted'')]"

definition create_embedded :: json where
  "create_embedded = JObj [(''type'', JStr ''Create''), (''object'', note_n1)]"

definition create_by_url :: json where
  "create_by_url = JObj [(''type'', JStr ''Create''), (''object'', JStr ''https://good.example/notes/2'')]"

definition announce_article :: json where
  "announce_article =
     JObj [(''type'', JStr ''Announce''), (''object'', JStr ''https://good.example/notes/3'')]"

definition announce_note :: json where
  "announce_note =
     JObj [(''type'', JStr ''Announce''), (''object'', JStr ''https://good.example/notes/4'')]"

definition announce_null :: json where
  "announce_null =
     JObj [(''type'', JStr ''Announce''), (''object'', JStr ''https://good.example/notes/6'')]"

definition like_item :: json where
  "like_item = JObj [(''type'', JStr ''Like''), (''object'', JStr ''https://good.example/notes/2'')]"

definition url_item :: json where
  "url_item = JStr ''https://good.example/act/5''"

definition sample_items :: "json list" where
  "sample_items = [create_embedded, create_by_url, announce_article, like_item, url_item]"

definition sample_page :: json where
  "sample_page =
     JObj [(''type'', JStr ''OrderedCollectionPage''),
           (''next'', JStr ''https://good.example/outbox?page=2''),
           (''orderedItems'', JArr sample_items)]"

definition sample_actor :: json where
  "sample_actor =
     JObj [(''id'', JStr ''https://good.example/actor''), (''type'', JStr ''Person''),
           (''outbox'', JStr ''https://good.example/outbox'')]"

definition sample_outbox :: json where
  "sample_outbox =
     JObj [(''type'', JStr ''OrderedCollection''),
           (''first'', JStr ''https://good.example/outbox?page=1'')]"

definition sample_replies :: "(string \<times> http_reply) list" where
  "sample_replies =
     [(''https://good.example/actor'', HttpResponse 200 (Some sample_actor)),
      (''https://good.example/outbox'', HttpResponse 200 (Some sample_outbox)),
      (''https://good.example/outbox?page=1'', HttpResponse 200 (Some sample_page)),
      (''https://good.example/outbox?page=2'',
         HttpResponse 200 (Some (JObj [(''type'', JStr ''OrderedCollectionPage''),
                                       (''orderedItems'', JArr [note_n4])]))),
      (''https://good.example/notes/2'', HttpResponse 200 (Some note_n2)),
      (''https://good.example/notes/3'', HttpResponse 200 (Some (JObj [(''type'', JStr ''Article'')]))),
      (''https://good.example/notes/4'', HttpResponse 200 (Some note_n4)),
      (''https://good.example/notes/6'', HttpResponse 200 (Some JNull)),
      (''https://good.example/act/5'', HttpResponse 404 None)]"

definition sample_net :: network where
  "sample_net u = (case map_of sample_replies u of None \<Rightarrow> CurlError | Some r \<Rightarrow> r)"

section \<open>Properties\<close>

subsection \<open>The scanner of \<^verbatim>\<open>strip_tags\<close> on text and simple tags\<close>

lemma toggle_quote_keep:
  "(if q = NUL \<or> c = q then toggle_quote c q else q) = toggle_quote c q"
  by (simp add: toggle_quote_def)

lemma run_text:
  "list_all text_char t \<Longrightarrow> state s = 0 \<Longrightarrow>
   strip_run allow prev (t @ rest) s = strip_run allow (rev t @ prev) rest (s\<lparr>rbuf := rbuf s @ t\<rparr>)"
proof (induction t arbitrary: prev s)
  case Nil
  then show ?case by simp
next
  case (Cons c t)
  from Cons.prems have tc: "text_char c" and t: "list_all text_char t" by simp_all
  from tc have c: "c \<noteq> NUL" "c \<noteq> CHR ''<''" "c \<noteq> CHR ''>''" by (simp_all add: text_char_def)
  have step: "strip_step allow prev c nxt s = s\<lparr>rbuf := rbuf s @ [c]\<rparr>" for nxt
    using c Cons.prems(2) by (simp add: strip_step_def step0_def)
  show ?case
    using Cons.IH [OF t, of "s\<lparr>rbuf := rbuf s @ [c]\<rparr>" "c # prev"] Cons.prems(2)
    by (simp add: step)
qed

lemma run_body:
  "list_all text_char b \<Longrightarrow> state s = 1 \<Longrightarrow> prev \<noteq> [] \<Longrightarrow>
   (case b of [] \<Rightarrow> True | c # cs \<Rightarrow> hd prev \<noteq> CHR ''<'' \<or> (c \<noteq> CHR ''!'' \<and> c \<noteq> CHR ''?'')) \<Longrightarrow>
   strip_run allow prev (b @ rest) s
     = strip_run allow (rev b @ prev) rest (s\<lparr>in_q := quote_scan (in_q s) b, tbuf := tbuf s @ b\<rparr>)"
proof (induction b arbitrary: prev s)
  case Nil
  then show ?case by simp
next
  case (Cons c b)
  from Cons.prems have tc: "text_char c" and b: "list_all text_char b" by simp_all
  from tc have c: "c \<noteq> NUL" "c \<noteq> CHR ''<''" "c \<noteq> CHR ''>''" by (simp_all add: text_char_def)
  from Cons.prems have first: "lookback prev 0 \<noteq> Some CHR ''<'' \<or> (c \<noteq> CHR ''!'' \<and> c \<noteq> CHR ''?'')"
    by (cases prev) (auto simp: lookback_def)
  let ?s' = "s\<lparr>in_q := (if c = DQUOTE \<or> c = SQUOTE then toggle_quote c (in_q s) else in_q s),
               tbuf := tbuf s @ [c]\<rparr>"
  have step: "strip_step allow prev c nxt s = ?s'" for nxt
    using c first Cons.prems(2,3)
    by (auto simp: strip_step_def step1_def Let_def toggle_quote_def)
  have nxt_ok: "(case b of [] \<Rightarrow> True
                 | d # ds \<Rightarrow> hd (c # prev) \<noteq> CHR ''<'' \<or> (d \<noteq> CHR ''!'' \<and> d \<noteq> CHR ''?''))"
    using c by (cases b) simp_all
  have "state ?s' = 1" using Cons.prems(2) by simp
  from Cons.IH [OF b this _ nxt_ok]
  show ?case by (simp add: step)
qed

lemma run_tag:
  assumes "idle s" and "seg_ok (Tag b)"
  shows "strip_run allow prev (CHR ''<'' # b @ CHR ''>'' # rest) s
     = strip_run allow (CHR ''>'' # rev b @ CHR ''<'' # prev) rest
         (s\<lparr>lc := CHR ''>'',
            rbuf := (if php_tag_find (CHR ''<'' # b @ ''>'') allow
                     then rbuf s @ CHR ''<'' # b @ ''>'' else rbuf s)\<rparr>)"
proof -
  from assms(2) obtain c cs where b: "b = c # cs" and c: "\<not> isspace c" "c \<noteq> CHR ''!''" "c \<noteq> CHR ''?''"
    and tc: "list_all text_char b" and q: "quote_scan NUL b = NUL"
    by (cases b) auto
  let ?s1 = "s\<lparr>lc := CHR ''<'', state := 1, tbuf := ''<''\<rparr>"
  have open_step: "strip_step allow prev (CHR ''<'') c s = ?s1"
    using assms(1) c by (simp add: strip_step_def step0_def idle_def NUL_def)
  let ?s2 = "?s1\<lparr>in_q := NUL, tbuf := CHR ''<'' # b\<rparr>"
  have pre: "(case b of [] \<Rightarrow> True
               | d # ds \<Rightarrow> hd (CHR ''<'' # prev) \<noteq> CHR ''<'' \<or> (d \<noteq> CHR ''!'' \<and> d \<noteq> CHR ''?''))"
    using b c by simp
  have "in_q ?s1 = NUL" using assms(1) by (simp add: idle_def)
  then have body: "strip_run allow (CHR ''<'' # prev) (b @ CHR ''>'' # rest) ?s1
     = strip_run allow (rev b @ CHR ''<'' # prev) (CHR ''>'' # rest) ?s2"
    using run_body [OF tc _ _ pre, of ?s1 allow "CHR ''>'' # rest"] q
    by simp
  have close_step: "strip_step allow (rev b @ CHR ''<'' # prev) (CHR ''>'') nxt ?s2
     = s\<lparr>lc := CHR ''>'',
          rbuf := (if php_tag_find (CHR ''<'' # b @ ''>'') allow
                   then rbuf s @ CHR ''<'' # b @ ''>'' else rbuf s)\<rparr>" for nxt
    using assms(1) by (cases s) (simp add: strip_step_def step1_def idle_def NUL_def Let_def)
  have "strip_run allow prev (CHR ''<'' # b @ CHR ''>'' # rest) s
      = strip_run allow (CHR ''<'' # prev) (b @ CHR ''>'' # rest) ?s1"
    using open_step by (simp add: b)
  also note body
  also have "strip_run allow (rev b @ CHR ''<'' # prev) (CHR ''>'' # rest) ?s2
      = strip_run allow (CHR ''>'' # rev b @ CHR ''<'' # prev) rest
         (s\<lparr>lc := CHR ''>'',
            rbuf := (if php_tag_find (CHR ''<'' # b @ ''>'') allow
                     then rbuf s @ CHR ''<'' # b @ ''>'' else rbuf s)\<rparr>)"
    by (simp only: strip_run.simps close_step)
  finally show ?thesis .
qed

lemma run_segments:
  "idle s \<Longrightarrow> list_all seg_ok segs \<Longrightarrow>
   rbuf (strip_run allow prev (render_all segs) s)
     = rbuf s @ render_all (filter (\<lambda>sg. case sg of Text t \<Rightarrow> True
                                        | Tag b \<Rightarrow> php_tag_find (CHR ''<'' # b @ ''>'') allow) segs)"
proof (induction segs arbitrary: s prev)
  case Nil
  then show ?case by (simp add: render_all_def)
next
  case (Cons sg segs)
  from Cons.prems have ok: "seg_ok sg" and oks: "list_all seg_ok segs" by simp_all
  show ?case
  proof (cases sg)
    case (Text t)
    with ok have t: "list_all text_char t" by simp
    have i: "idle (s\<lparr>rbuf := rbuf s @ t\<rparr>)" using Cons.prems(1) by (simp add: idle_def)
    have "state s = 0" using Cons.prems(1) by (simp add: idle_def)
    from run_text [OF t this, of allow prev "render_all segs"] Cons.IH [OF i oks]
    show ?thesis by (simp add: Text render_all_def)
  next
    case (Tag b)
    let ?s' = "s\<lparr>lc := CHR ''>'',
            rbuf := (if php_tag_find (CHR ''<'' # b @ ''>'') allow
                     then rbuf s @ CHR ''<'' # b @ ''>'' else rbuf s)\<rparr>"
    have i: "idle ?s'" using Cons.prems(1) by (simp add: idle_def)
    from run_tag [OF Cons.prems(1) ok [unfolded Tag], of allow prev "render_all segs"]
      Cons.IH [OF i oks]
    show ?thesis by (simp add: Tag render_all_def)
  qed
qed

subsection \<open>Which tags the allow-list keeps\<close>

lemma upper_shift_not_bracket:
  fixes n :: nat
  assumes "65 \<le> n" "n \<le> 90"
  shows "char_of (n + 32) \<noteq> CHR ''<''" "char_of (n + 32) \<noteq> CHR ''>''"
proof -
  have v: "(of_char (char_of (n + 32)) :: nat) = n + 32" using assms by simp
  show "char_of (n + 32) \<noteq> CHR ''<''"
  proof
    assume "char_of (n + 32) = CHR ''<''"
    then have "(of_char (char_of (n + 32)) :: nat) = of_char (CHR ''<'')" by simp
    with v assms show False by simp
  qed
  show "char_of (n + 32) \<noteq> CHR ''>''"
  proof
    assume "char_of (n + 32) = CHR ''>''"
    then have "(of_char (char_of (n + 32)) :: nat) = of_char (CHR ''>'')" by simp
    with v assms show False by simp
  qed
qed

lemma tolower_not_bracket:
  "c \<noteq> CHR ''<'' \<Longrightarrow> tolower c \<noteq> CHR ''<''"
  "c \<noteq> CHR ''>'' \<Longrightarrow> tolower c \<noteq> CHR ''>''"
  using upper_shift_not_bracket by (auto simp: tolower_def Let_def)

lemma tag_norm_no_bracket:
  "list_all text_char b \<Longrightarrow>
   list_all (\<lambda>c. c \<noteq> CHR ''<'' \<and> c \<noteq> CHR ''>'') (tag_norm st (b @ ''>''))"
proof (induction b arbitrary: st)
  case Nil
  then show ?case by simp
next
  case (Cons c b)
  from Cons.prems have tc: "text_char c" and b: "list_all text_char b" by simp_all
  from tc have c: "c \<noteq> CHR ''<''" "c \<noteq> CHR ''>''" by (simp_all add: text_char_def)
  show ?case
    using c Cons.IH [OF b]
    by (auto simp: Let_def tolower_not_bracket)
qed

lemma is_prefix_name:
  "list_all (\<lambda>c. c \<noteq> CHR ''>'') n \<Longrightarrow> list_all (\<lambda>c. c \<noteq> CHR ''>'') w \<Longrightarrow>
   is_prefix (n @ ''>'') (w @ CHR ''>'' # r) = (n = w)"
proof (induction n arbitrary: w)
  case Nil
  then show ?case by (cases w) auto
next
  case (Cons c n)
  then show ?case by (cases w) auto
qed

lemma is_substr_skip:
  "list_all (\<lambda>c. c \<noteq> CHR ''<'') w \<Longrightarrow>
   is_substr (CHR ''<'' # y) (w @ CHR ''>'' # r) = is_substr (CHR ''<'' # y) r"
  by (induction w) auto

lemma is_substr_tags:
  assumes "list_all (\<lambda>c. c \<noteq> CHR ''<'' \<and> c \<noteq> CHR ''>'') n"
    and "list_all (list_all (\<lambda>c. c \<noteq> CHR ''<'' \<and> c \<noteq> CHR ''>'')) ws"
  shows "is_substr (CHR ''<'' # n @ ''>'') (concat (map (\<lambda>w. CHR ''<'' # w @ ''>'') ws)) = (n \<in> set ws)"
  using assms(2)
proof (induction ws)
  case Nil
  then show ?case by simp
next
  case (Cons w ws)
  from Cons.prems have w: "list_all (\<lambda>c. c \<noteq> CHR ''<'' \<and> c \<noteq> CHR ''>'') w"
    and ws: "list_all (list_all (\<lambda>c. c \<noteq> CHR ''<'' \<and> c \<noteq> CHR ''>'')) ws" by simp_all
  from w have w1: "list_all (\<lambda>c. c \<noteq> CHR ''<'') w" and w2: "list_all (\<lambda>c. c \<noteq> CHR ''>'') w"
    by (simp_all add: list_all_iff)
  from assms(1) have n2: "list_all (\<lambda>c. c \<noteq> CHR ''>'') n" by (simp add: list_all_iff)
  have "is_substr (CHR ''<'' # n @ ''>'') (CHR ''<'' # w @ CHR ''>'' # concat (map (\<lambda>w. CHR ''<'' # w @ ''>'') ws))
      = (n = w \<or> n \<in> set ws)"
    using is_prefix_name [OF n2 w2] is_substr_skip [OF w1] Cons.IH [OF ws]
    by simp
  then show ?case by auto
qed

lemma allowedTags_whitelist:
  "strtolower allowedTags = concat (map (\<lambda>w. CHR ''<'' # w @ ''>'') whitelist)"
  by (simp add: allowedTags_def whitelist_def strtolower_def tolower_def)

lemma whitelist_clean:
  "list_all (list_all (\<lambda>c. c \<noteq> CHR ''<'' \<and> c \<noteq> CHR ''>'')) whitelist"
  by (simp add: whitelist_def)

lemma tag_find_whitelist:
  assumes "list_all text_char b"
  shows "php_tag_find (CHR ''<'' # b @ ''>'') (strtolower allowedTags) = (tag_name b \<in> set whitelist)"
proof -
  have norm: "tag_norm False (CHR ''<'' # b @ ''>'') = CHR ''<'' # tag_norm False (b @ ''>'')"
    by simp
  show ?thesis
    using is_substr_tags [OF tag_norm_no_bracket [OF assms, of False] whitelist_clean]
    by (simp add: php_tag_find_def tag_name_def norm allowedTags_whitelist del: tag_norm.simps)
qed

lemma kept_tag_find:
  "seg_ok sg \<Longrightarrow>
   (case sg of Text t \<Rightarrow> True | Tag b \<Rightarrow> php_tag_find (CHR ''<'' # b @ ''>'') (strtolower allowedTags))
     = kept sg"
proof (cases sg)
  case (Text t)
  then show ?thesis by simp
next
  case (Tag b)
  assume "seg_ok sg"
  with Tag have "list_all text_char b" by (cases b) simp_all
  then show ?thesis using Tag by (simp add: tag_find_whitelist)
qed

lemma filter_kept:
  "list_all seg_ok segs \<Longrightarrow>
   filter (\<lambda>sg. case sg of Text t \<Rightarrow> True
                 | Tag b \<Rightarrow> php_tag_find (CHR ''<'' # b @ ''>'') (strtolower allowedTags)) segs
     = filter kept segs"
  by (rule filter_cong) (auto simp: list_all_iff kept_tag_find)

subsection \<open>Plain text passes unchanged; counting characters\<close>

lemma mb_count_prefix: "mb_count k (mb_prefix n k s) = min n (mb_count k s)"
  by (induction n k s rule: mb_prefix.induct) simp_all

lemma mb_prefix_is_prefix: "take (length (mb_prefix n k s)) s = mb_prefix n k s"
  by (induction n k s rule: mb_prefix.induct) simp_all

lemma plain_mblen: "plain c \<Longrightarrow> mblen c = 1"
  by (simp add: plain_def mblen_def)

lemma mb_count_plain: "list_all plain s \<Longrightarrow> mb_count 0 s = length s"
  by (induction s) (simp_all add: plain_mblen)

lemma mb_prefix_plain: "list_all plain s \<Longrightarrow> mb_prefix n 0 s = take n s"
proof (induction s arbitrary: n)
  case Nil
  then show ?case by simp
next
  case (Cons c s)
  then show ?case by (cases n) (simp_all add: plain_mblen)
qed

lemma utf8_valid_plain: "list_all plain s \<Longrightarrow> utf8_valid s"
  by (induction s) (simp_all add: plain_def)

lemma escape_html_plain: "list_all plain s \<Longrightarrow> escape_html env s = s"
  by (induction s) (simp_all add: plain_def)

lemma plain_text_char: "plain c \<Longrightarrow> text_char c"
  by (simp add: plain_def text_char_def)

lemma strip_tags_text: "list_all text_char t \<Longrightarrow> strip_tags t allowed = t"
  using run_text [of t strip_init "strtolower allowed" "[]" "[]"]
  by (simp add: strip_tags_def strip_init_def)

lemma strip_tags_plain: "list_all plain s \<Longrightarrow> strip_tags s allowed = s"
  by (rule strip_tags_text) (simp add: list_all_iff plain_text_char)

lemma sanitized_plain:
  "list_all plain s \<Longrightarrow> htmlspecialchars env (strip_tags s allowedTags) = s"
  by (simp add: strip_tags_plain htmlspecialchars_def utf8_valid_plain escape_html_plain)

lemma plain_a: "plain (CHR ''a'')"
  by (simp add: plain_def NUL_def DQUOTE_def SQUOTE_def)

subsection \<open>Sanitisation\<close>

text \<open>
  Claim C1, in the form that holds. The tag filter of \<open>sanitizeContent\<close>, that is
  \<^verbatim>\<open>strip_tags\<close> with the allow-list, removes the tags whose name is not one of
  \<^verbatim>\<open>p, br, a, strong, em, b, i, u, s, code, pre, blockquote, ul, ol, li\<close> and removes nothing
  else: for every content made of text and simple tags, its result is the same content
  without the tags whose name is outside the whitelist. In particular the text between a
  removed start tag and its end tag is kept.
\<close>

theorem strip_tags_whitelist:
  assumes "list_all seg_ok segs"
  shows "strip_tags (render_all segs) allowedTags = render_all (filter kept segs)"
proof -
  have "idle strip_init" by (simp add: idle_def strip_init_def)
  from run_segments [OF this assms, of "strtolower allowedTags" "[]"]
  have "strip_tags (render_all segs) allowedTags
      = render_all (filter (\<lambda>sg. case sg of Text t \<Rightarrow> True
                 | Tag b \<Rightarrow> php_tag_find (CHR ''<'' # b @ ''>'') (strtolower allowedTags)) segs)"
    by (simp add: strip_tags_def strip_init_def)
  with filter_kept [OF assms] show ?thesis by simp
qed

text \<open>
  On the content of the example the filter removes the two \<^verbatim>\<open>script\<close> tags and keeps
  \<^verbatim>\<open>evil()\<close>.
\<close>

theorem strip_tags_whitelist_witness:
  "list_all seg_ok [Tag ''script'', Text ''evil()'', Tag ''/script'', Tag ''p'', Text ''hi'', Tag ''/p'']
   \<and> strip_tags ''<script>evil()</script><p>hi</p>'' allowedTags = ''evil()<p>hi</p>''"
proof -
  let ?segs = "[Tag ''script'', Text ''evil()'', Tag ''/script'', Tag ''p'', Text ''hi'', Tag ''/p'']"
  have ok: "list_all seg_ok ?segs"
    by (simp add: text_char_def isspace_def NUL_def DQUOTE_def SQUOTE_def)
  have r: "render_all ?segs = ''<script>evil()</script><p>hi</p>''"
    by (simp add: render_all_def)
  have k: "filter kept ?segs = [Text ''evil()'', Tag ''p'', Text ''hi'', Tag ''/p'']"
    by (simp add: tag_name_def whitelist_def Let_def tolower_def isspace_def NUL_def)
  from strip_tags_whitelist [OF ok] show ?thesis
    using ok by (simp only: r k) (simp add: render_all_def)
qed

lemma strip_tags_script_example:
  "strip_tags ''<script>evil()</script><p>hi</p>'' allowedTags = ''evil()<p>hi</p>''"
  by code_simp

text \<open>
  The example of claim C1 as the claim states it: the sanitised content is not
  \<^verbatim>\<open><p>hi</p>\<close>. The text inside the \<^verbatim>\<open>script\<close> element is still there.
\<close>

theorem sanitizeContent_script_example:
  "sanitizeContent php_sample ''<script>evil()</script><p>hi</p>'' = ''evil()&lt;p&gt;hi&lt;/p&gt;''
   \<and> sanitizeContent php_sample ''<script>evil()</script><p>hi</p>'' \<noteq> ''<p>hi</p>''"
proof -
  note s = strip_tags_script_example
  have e: "htmlspecialchars php_sample ''evil()<p>hi</p>'' = ''evil()&lt;p&gt;hi&lt;/p&gt;''"
    by code_simp
  have l: "mb_strlen ''evil()&lt;p&gt;hi&lt;/p&gt;'' = 27"
    by code_simp
  show ?thesis by (simp add: sanitizeContent_def Let_def s e l)
qed

text \<open>
  Claim C8. For every content whose sanitised form (tags filtered, special characters
  escaped) has more than 10000 characters, \<open>sanitizeContent\<close> returns the first 10000
  characters of that form followed by \<^verbatim>\<open>...\<close>. In particular a content of 10050 plain
  characters is sanitised to its first 10000 characters followed by \<^verbatim>\<open>...\<close>.
\<close>

theorem sanitizeContent_truncation:
  "(mb_strlen (htmlspecialchars env (strip_tags c allowedTags)) > 10000 \<longrightarrow>
      sanitizeContent env c = mb_substr0 (htmlspecialchars env (strip_tags c allowedTags)) 10000 @ ''...''
      \<and> mb_strlen (mb_substr0 (htmlspecialchars env (strip_tags c allowedTags)) 10000) = 10000
      \<and> take (length (mb_substr0 (htmlspecialchars env (strip_tags c allowedTags)) 10000))
           (htmlspecialchars env (strip_tags c allowedTags))
         = mb_substr0 (htmlspecialchars env (strip_tags c allowedTags)) 10000)
   \<and> (list_all plain c \<and> length c = 10050 \<longrightarrow>
      sanitizeContent env c = take 10000 c @ ''...'' \<and> length (take 10000 c) = 10000)"
proof (intro conjI impI)
  let ?s = "htmlspecialchars env (strip_tags c allowedTags)"
  assume long: "mb_strlen ?s > 10000"
  then show "sanitizeContent env c = mb_substr0 ?s 10000 @ ''...''"
    by (simp add: sanitizeContent_def Let_def)
  show "mb_strlen (mb_substr0 ?s 10000) = 10000"
    using long by (simp add: mb_strlen_def mb_substr0_def mb_count_prefix)
  show "take (length (mb_substr0 ?s 10000)) ?s = mb_substr0 ?s 10000"
    by (simp add: mb_substr0_def mb_prefix_is_prefix)
next
  assume p: "list_all plain c \<and> length c = 10050"
  then have s: "htmlspecialchars env (strip_tags c allowedTags) = c" by (simp add: sanitized_plain)
  from p show "sanitizeContent env c = take 10000 c @ ''...''"
    by (simp add: sanitizeContent_def Let_def s mb_strlen_def mb_substr0_def mb_count_plain mb_prefix_plain)
  from p show "length (take 10000 c) = 10000" by simp
qed

theorem sanitizeContent_truncation_witness:
  "mb_strlen (htmlspecialchars php_sample (strip_tags (replicate 10050 (CHR ''a'')) allowedTags)) > 10000
   \<and> list_all plain (replicate 10050 (CHR ''a'')) \<and> length (replicate 10050 (CHR ''a'')) = 10050
   \<and> sanitizeContent php_sample (replicate 10050 (CHR ''a'')) = replicate 10000 (CHR ''a'') @ ''...''"
proof -
  let ?c = "replicate 10050 (CHR ''a'')"
  have p: "list_all plain ?c" by (simp add: list_all_iff plain_a)
  have l: "length ?c = 10050" by simp
  have s: "htmlspecialchars php_sample (strip_tags ?c allowedTags) = ?c"
    using p by (rule sanitized_plain)
  have long: "mb_strlen (htmlspecialchars php_sample (strip_tags ?c allowedTags)) > 10000"
    using p by (simp only: s mb_strlen_def mb_count_plain) simp
  from sanitizeContent_truncation [of php_sample ?c] p l
  have "sanitizeContent php_sample ?c = take 10000 ?c @ ''...''" by blast
  then have "sanitizeContent php_sample ?c = replicate 10000 (CHR ''a'') @ ''...''" by simp
  with long p l show ?thesis by blast
qed

subsection \<open>Building a note\<close>

lemma fromArray_fields:
  assumes "fromArray env now d = Inr n"
  shows "published_instant env now d = Inr (publishedAt n)"
    and "formattedDate n = format_tokyo env (publishedAt n)"
    and "note_attachments d = Inr (attachments n)"
    and "author n = note_author d"
    and "to_string (or_default (php_index d ''content'') (JStr [])) = Some (content n)"
    and "sanitizedContent n = sanitizeContent env (content n)"
  using assms
  by (auto simp: fromArray_def split: sum.splits option.splits)

lemma sample_build_n2:
  "is_ok (fromArray php_sample 0 note_n2)" "is_ok (fromArray php_sample 60 note_n2)"
  "published_instant php_sample 0 note_n2 = published_instant php_sample 60 note_n2"
  by code_simp+

text \<open>
  Claim C4, in the form that holds. Two calls of \<open>fromArray\<close> on the same object, at the
  clock readings \<open>now1\<close> and \<open>now2\<close>, yield the same \<open>sanitizedContent\<close>, the same
  \<open>attachments\<close> and the same \<open>author\<close>; they yield the same \<open>formattedDate\<close> when the
  \<^verbatim>\<open>published\<close> field denotes the same instant at both readings, as an absolute timestamp
  does. An object without \<^verbatim>\<open>published\<close> takes the time of the call.
\<close>

theorem fromArray_repeatable:
  assumes "fromArray env now1 d = Inr n1" and "fromArray env now2 d = Inr n2"
  shows "sanitizedContent n1 = sanitizedContent n2
       \<and> attachments n1 = attachments n2
       \<and> author n1 = author n2
       \<and> (published_instant env now1 d = published_instant env now2 d
            \<longrightarrow> formattedDate n1 = formattedDate n2)"
proof (intro conjI impI)
  have "Some (content n1) = Some (content n2)"
    using fromArray_fields(5) [OF assms(1)] fromArray_fields(5) [OF assms(2)] by simp
  then show "sanitizedContent n1 = sanitizedContent n2"
    using fromArray_fields(6) [OF assms(1)] fromArray_fields(6) [OF assms(2)] by simp
  have "(Inr (attachments n1) :: throwable + json list) = Inr (attachments n2)"
    using fromArray_fields(3) [OF assms(1)] fromArray_fields(3) [OF assms(2)] by simp
  then show "attachments n1 = attachments n2" by simp
  show "author n1 = author n2"
    using fromArray_fields(4) [OF assms(1)] fromArray_fields(4) [OF assms(2)] by simp
next
  assume "published_instant env now1 d = published_instant env now2 d"
  then have "publishedAt n1 = publishedAt n2"
    using fromArray_fields(1) [OF assms(1)] fromArray_fields(1) [OF assms(2)] by simp
  then show "formattedDate n1 = formattedDate n2"
    using fromArray_fields(2) [OF assms(1)] fromArray_fields(2) [OF assms(2)] by simp
qed

theorem fromArray_repeatable_witness:
  "published_instant php_sample 0 note_n2 = published_instant php_sample 60 note_n2
   \<and> (case (fromArray php_sample 0 note_n2, fromArray php_sample 60 note_n2) of
        (Inr n1, Inr n2) \<Rightarrow>
          sanitizedContent n1 = sanitizedContent n2 \<and> attachments n1 = attachments n2
          \<and> author n1 = author n2 \<and> formattedDate n1 = formattedDate n2
      | _ \<Rightarrow> False)"
proof -
  from sample_build_n2(1) obtain n1 where n1: "fromArray php_sample 0 note_n2 = Inr n1"
    by (cases "fromArray php_sample 0 note_n2") (simp_all add: is_ok_def)
  from sample_build_n2(2) obtain n2 where n2: "fromArray php_sample 60 note_n2 = Inr n2"
    by (cases "fromArray php_sample 60 note_n2") (simp_all add: is_ok_def)
  from fromArray_repeatable [OF n1 n2] sample_build_n2(3)
  show ?thesis by (simp add: n1 n2)
qed

text \<open>
  Claim C4 as stated fails on a valid note without \<^verbatim>\<open>published\<close>: built at two instants a
  minute apart, it gets two different formatted dates.
\<close>

theorem fromArray_clock_counterexample:
  "validateNoteObject note_n1
   \<and> map_sum id formattedDate (fromArray php_sample 0 note_n1)
       = Inr (''1970'' @ NEN @ ''01'' @ GATSU @ ''01'' @ NICHI @ '' 09:00'')
   \<and> map_sum id formattedDate (fromArray php_sample 60 note_n1)
       = Inr (''1970'' @ NEN @ ''01'' @ GATSU @ ''01'' @ NICHI @ '' 09:01'')"
  by code_simp

subsection \<open>URL authorisation\<close>








subsection \<open>The loop over the items of a page\<close>







text \<open>
  Claim C2 on a concrete page. The first item is a URL whose request fails with HTTP status
  404; the loop goes on with the next item, which becomes a note, but the failed item is
  not among the unparsed items: the \<^verbatim>\<open>catch\<close> of that branch ends the round with
  \<^verbatim>\<open>continue\<close>, before the item is recorded.
\<close>

theorem url_item_fetch_failure_not_recorded:
  "httpGet sample_net ''https://good.example/act/5'' = Inl (FetchException HTTP_ERROR)
   \<and> map_sum id (\<lambda>st. (map note_id (note_list st), debug_unparsed_items st, requested st))
       (processOrderedItems php_sample sample_net 0 [url_item, create_embedded] 20 0 [])
     = Inr ([''n1''], [], [''https://good.example/act/5''])"
  by code_simp

text \<open>
  Claim C5 on a concrete page. The first item is an \<^verbatim>\<open>Announce\<close> whose object URL answers
  with status 200 and the JSON document \<^verbatim>\<open>null\<close>. \<^verbatim>\<open>httpGet\<close> must return an array, so its
  \<^verbatim>\<open>return\<close> raises a TypeError; the \<^verbatim>\<open>catch (Exception $e)\<close> around the request does not
  catch it, and the loop ends with this error instead of recording the item and going on.
\<close>

theorem announce_scalar_body_aborts:
  "php_index announce_null ''type'' = Some (JStr ''Announce'')
   \<and> php_index announce_null ''object'' = Some (JStr ''https://good.example/notes/6'')
   \<and> filter_validate_url php_sample ''https://good.example/notes/6''
   \<and> sample_net ''https://good.example/notes/6'' = HttpResponse 200 (Some JNull)
   \<and> httpGet sample_net ''https://good.example/notes/6'' = Inl TypeError
   \<and> resolve_item php_sample sample_net announce_null
       = (Throw TypeError, [''https://good.example/notes/6''])
   \<and> processOrderedItems php_sample sample_net 0 [announce_null, create_embedded] 20 0 []
       = Inl TypeError"
  by code_simp

lemma announce_resolve:
  assumes "php_index item ''type'' = Some (JStr ''Announce'')"
    and "php_index item ''object'' = Some (JStr u)"
    and "filter_validate_url env u"
  shows "resolve_item env net item =
     (case httpGet net u of
        Inr originalPost \<Rightarrow>
          if php_index originalPost ''type'' = Some (JStr ''Note'')
          then (NoteObject originalPost, [u]) else (NoteObject JNull, [u])
      | Inl e \<Rightarrow> if is_Exception e then (NoteObject JNull, [u]) else (Throw e, [u]))"
  using assms by (simp add: resolve_item_def isset_def)

lemma sample_announce_facts:
  "php_index announce_article ''type'' = Some (JStr ''Announce'')"
  "php_index announce_article ''object'' = Some (JStr ''https://good.example/notes/3'')"
  "php_index announce_note ''type'' = Some (JStr ''Announce'')"
  "php_index announce_note ''object'' = Some (JStr ''https://good.example/notes/4'')"
  "filter_validate_url php_sample ''https://good.example/notes/3''"
  "filter_validate_url php_sample ''https://good.example/notes/4''"
  "httpGet sample_net ''https://good.example/notes/3'' = Inr (JObj [(''type'', JStr ''Article'')])"
  "httpGet sample_net ''https://good.example/notes/4'' = Inr note_n4"
  "php_index note_n4 ''type'' = Some (JStr ''Note'')"
  by code_simp+

text \<open>
  What holds for an item of type \<^verbatim>\<open>Announce\<close> whose \<^verbatim>\<open>object\<close> is a URL string: the
  resolution requests that URL once and nothing else. If the request returns an object of
  type \<^verbatim>\<open>Note\<close>, this object is the candidate. If \<^verbatim>\<open>httpGet\<close> throws one of its exceptions
  (network, HTTP status, JSON), or returns an object of another type, there is no candidate:
  the item is unparsed, and the loop on this item returns normally with the item appended
  to the unparsed items.
\<close>

lemma announce_resolution:
  assumes "php_index item ''type'' = Some (JStr ''Announce'')"
    and "php_index item ''object'' = Some (JStr u)"
    and "filter_validate_url env u"
  shows "snd (resolve_item env net item) = [u]
       \<and> (\<forall>post. httpGet net u = Inr post \<and> php_index post ''type'' = Some (JStr ''Note'')
            \<longrightarrow> resolve_item env net item = (NoteObject post, [u]))
       \<and> ((\<exists>e. httpGet net u = Inl e \<and> is_Exception e)
           \<or> (\<exists>post. httpGet net u = Inr post \<and> php_index post ''type'' \<noteq> Some (JStr ''Note''))
            \<longrightarrow> resolve_item env net item = (NoteObject JNull, [u])
                \<and> process_item env net now item = (Inr Unparsed, [u])
                \<and> (0 < maxPosts \<longrightarrow>
                     processOrderedItems env net now [item] maxPosts 0 unparsed0
                       = Inr \<lparr>note_list = [], processedCount = 0,
                              debug_unparsed_items = unparsed0 @ [item], requested = [u]\<rparr>))"
proof (intro conjI allI impI)
  show "snd (resolve_item env net item) = [u]"
    by (simp add: announce_resolve [OF assms] split: sum.splits)
next
  fix post
  assume "httpGet net u = Inr post \<and> php_index post ''type'' = Some (JStr ''Note'')"
  then show "resolve_item env net item = (NoteObject post, [u])"
    by (simp add: announce_resolve [OF assms])
next
  assume fail: "(\<exists>e. httpGet net u = Inl e \<and> is_Exception e)
           \<or> (\<exists>post. httpGet net u = Inr post \<and> php_index post ''type'' \<noteq> Some (JStr ''Note''))"
  then show r: "resolve_item env net item = (NoteObject JNull, [u])"
    by (auto simp: announce_resolve [OF assms])
  then show p: "process_item env net now item = (Inr Unparsed, [u])"
    by (simp add: process_item_def)
  assume "0 < maxPosts"
  with p show "processOrderedItems env net now [item] maxPosts 0 unparsed0
                 = Inr \<lparr>note_list = [], processedCount = 0,
                        debug_unparsed_items = unparsed0 @ [item], requested = [u]\<rparr>"
    by (simp add: processOrderedItems_def)
qed

lemma announce_resolution_example:
  "resolve_item php_sample sample_net announce_note = (NoteObject note_n4, [''https://good.example/notes/4''])
   \<and> process_item php_sample sample_net 0 announce_article
       = (Inr Unparsed, [''https://good.example/notes/3''])
   \<and> processOrderedItems php_sample sample_net 0 [announce_article] 20 0 []
       = Inr \<lparr>note_list = [], processedCount = 0, debug_unparsed_items = [announce_article],
              requested = [''https://good.example/notes/3'']\<rparr>"
proof -
  have a: "resolve_item php_sample sample_net announce_note
      = (NoteObject note_n4, [''https://good.example/notes/4''])"
    using announce_resolution [OF sample_announce_facts(3,4,6), of sample_net 0 20 "[]"]
      sample_announce_facts(8,9) by blast
  have "\<exists>post. httpGet sample_net ''https://good.example/notes/3'' = Inr post
          \<and> php_index post ''type'' \<noteq> Some (JStr ''Note'')"
    using sample_announce_facts(7) by simp
  with announce_resolution [OF sample_announce_facts(1,2,5), of sample_net 0 20 "[]"]
  have b: "process_item php_sample sample_net 0 announce_article
       = (Inr Unparsed, [''https://good.example/notes/3''])"
    and c: "processOrderedItems php_sample sample_net 0 [announce_article] 20 0 []
       = Inr \<lparr>note_list = [], processedCount = 0, debug_unparsed_items = [] @ [announce_article],
              requested = [''https://good.example/notes/3'']\<rparr>"
    by simp_all
  from a b c show ?thesis by simp
qed

subsection \<open>The whole fetch\<close>

lemma fetch_success:
  assumes "fetch env net allowedDomains now actorUrl maxPosts = Inr (r, urls)"
  obtains actorJson outboxUrl ob coll page pageUrls st info where
    "validateUrl env actorUrl allowedDomains = Inr ()"
    "httpGet net actorUrl = Inr actorJson"
    "validateActorObject env actorJson"
    "php_index actorJson ''outbox'' = Some outboxUrl"
    "to_string outboxUrl = Some ob"
    "httpGet net ob = Inr coll"
    "(case php_index coll ''first'' of
        Some (JStr f) \<Rightarrow> map_sum id (\<lambda>pg. (pg, [f])) (httpGet net f)
      | _ \<Rightarrow> Inr (coll, [])) = Inr (page, pageUrls)"
    "validateOutboxCollection page"
    "extractNotesFromOutbox env net now page maxPosts [] = Inr st"
    "extractActorInfo actorJson = Inr info"
    "r = \<lparr>posts = note_list st, actor_info = info,
          meta = \<lparr>count = length (note_list st), fetched_at = date_format env ''c'' now,
                   actor_url = actorUrl, outbox_url = outboxUrl\<rparr>,
          debug_outbox_page = page,
          debug_test = ''THIS_IS_A_TEST_'' @ date_format env ''H:i:s'' now\<rparr>"
    "urls = [actorUrl, ob] @ pageUrls @ requested st"
proof -
  from assms obtain actorJson where a1: "validateUrl env actorUrl allowedDomains = Inr ()"
    and a2: "httpGet net actorUrl = Inr actorJson"
    by (auto simp: fetch_def split: sum.splits)
  from assms a1 a2 have a3: "validateActorObject env actorJson"
    by (auto simp: fetch_def split: if_splits)
  define outboxUrl where "outboxUrl = or_default (php_index actorJson ''outbox'') JNull"
  from assms a1 a2 a3 have t: "truthy outboxUrl"
    by (auto simp: fetch_def outboxUrl_def Let_def split: if_splits)
  then have a4: "php_index actorJson ''outbox'' = Some outboxUrl"
    by (cases "php_index actorJson ''outbox''") (auto simp: outboxUrl_def or_default_def)
  have o: "or_default (php_index actorJson ''outbox'') JNull = outboxUrl"
    by (simp add: outboxUrl_def)
  from assms have rest:
    "(case to_string outboxUrl of
        None \<Rightarrow> Inl TypeError
      | Some ob \<Rightarrow>
     (case httpGet net ob of
        Inl e \<Rightarrow> Inl e
      | Inr outboxCollection \<Rightarrow>
     (case (case php_index outboxCollection ''first'' of
              Some (JStr f) \<Rightarrow> map_sum id (\<lambda>pg. (pg, [f])) (httpGet net f)
            | _ \<Rightarrow> Inr (outboxCollection, [])) of
        Inl e \<Rightarrow> Inl e
      | Inr (outboxPage, pageUrls) \<Rightarrow>
     if \<not> validateOutboxCollection outboxPage then Inl (ParseException INVALID_NOTE)
     else
     (case extractNotesFromOutbox env net now outboxPage maxPosts [] of
        Inl e \<Rightarrow> Inl e
      | Inr extractResult \<Rightarrow>
     (case extractActorInfo actorJson of
        Inl e \<Rightarrow> Inl e
      | Inr actorInfo \<Rightarrow>
          Inr (\<lparr>posts = note_list extractResult,
                actor_info = actorInfo,
                meta = \<lparr>count = length (note_list extractResult),
                         fetched_at = date_format env ''c'' now,
                         actor_url = actorUrl,
                         outbox_url = outboxUrl\<rparr>,
                debug_outbox_page = outboxPage,
                debug_test = ''THIS_IS_A_TEST_'' @ date_format env ''H:i:s'' now\<rparr>,
               [actorUrl, ob] @ pageUrls @ requested extractResult)))))) = Inr (r, urls)"
    using a1 a2 a3 t by (simp add: fetch_def Let_def o)
  from rest obtain ob where a5: "to_string outboxUrl = Some ob"
    by (cases "to_string outboxUrl") auto
  from rest a5 obtain coll where a6: "httpGet net ob = Inr coll"
    by (cases "httpGet net ob") auto
  let ?pg = "(case php_index coll ''first'' of
        Some (JStr f) \<Rightarrow> map_sum id (\<lambda>pg. (pg, [f])) (httpGet net f)
      | _ \<Rightarrow> Inr (coll, []))"
  from rest a5 a6 obtain page pageUrls where a7: "?pg = Inr (page, pageUrls)"
    by (cases ?pg) auto
  from rest have rest2:
    "(if \<not> validateOutboxCollection page then Inl (ParseException INVALID_NOTE)
     else
     (case extractNotesFromOutbox env net now page maxPosts [] of
        Inl e \<Rightarrow> Inl e
      | Inr extractResult \<Rightarrow>
     (case extractActorInfo actorJson of
        Inl e \<Rightarrow> Inl e
      | Inr actorInfo \<Rightarrow>
          Inr (\<lparr>posts = note_list extractResult,
                actor_info = actorInfo,
                meta = \<lparr>count = length (note_list extractResult),
                         fetched_at = date_format env ''c'' now,
                         actor_url = actorUrl,
                         outbox_url = outboxUrl\<rparr>,
                debug_outbox_page = page,
                debug_test = ''THIS_IS_A_TEST_'' @ date_format env ''H:i:s'' now\<rparr>,
               [actorUrl, ob] @ pageUrls @ requested extractResult)))) = Inr (r, urls)"
    by (simp only: a5 a6 a7 option.case sum.case prod.case)
  from rest2 have a8: "validateOutboxCollection page"
    by (auto split: if_splits)
  from rest2 a8 obtain st where a9: "extractNotesFromOutbox env net now page maxPosts [] = Inr st"
    by (cases "extractNotesFromOutbox env net now page maxPosts []") auto
  from rest2 a8 a9 obtain info where a10: "extractActorInfo actorJson = Inr info"
    by (cases "extractActorInfo actorJson") auto
  from rest2 a8 a9 a10 have a11: "r = \<lparr>posts = note_list st, actor_info = info,
          meta = \<lparr>count = length (note_list st), fetched_at = date_format env ''c'' now,
                   actor_url = actorUrl, outbox_url = outboxUrl\<rparr>,
          debug_outbox_page = page,
          debug_test = ''THIS_IS_A_TEST_'' @ date_format env ''H:i:s'' now\<rparr>"
    and a12: "urls = [actorUrl, ob] @ pageUrls @ requested st"
    by auto
  from a1 a2 a3 a4 a5 a6 a7 a8 a9 a10 a11 a12 show thesis by (rule that)
qed

lemma httpGet_array: "httpGet net u = Inr j \<Longrightarrow> is_array j"
  by (auto simp: httpGet_def split: http_reply.splits if_splits option.splits)

lemma working_page_array:
  assumes "httpGet net ob = Inr coll"
    and "(case php_index coll ''first'' of
        Some (JStr f) \<Rightarrow> map_sum id (\<lambda>pg. (pg, [f])) (httpGet net f)
      | _ \<Rightarrow> Inr (coll, [])) = Inr (page, pageUrls)"
  shows "is_array page \<and> (\<exists>u. httpGet net u = Inr page)"
proof (cases "\<exists>f. php_index coll ''first'' = Some (JStr f)")
  case True
  then obtain f where f: "php_index coll ''first'' = Some (JStr f)" by blast
  with assms(2) have "httpGet net f = Inr page"
    by (cases "httpGet net f") simp_all
  then show ?thesis using httpGet_array by blast
next
  case False
  with assms(2) have "page = coll"
    by (auto split: option.splits json.splits)
  with assms(1) show ?thesis using httpGet_array by blast
qed

lemma sample_fetch:
  "map_sum id (\<lambda>(r, urls). (map note_id (posts r), count (meta r), actor_url (meta r),
                              outbox_url (meta r), debug_outbox_page r, urls))
     (fetch php_sample sample_net [] 0 ''https://good.example/actor'' 20)
   = Inr ([''n1'', ''n2''], 2, ''https://good.example/actor'', JStr ''https://good.example/outbox'',
          sample_page,
          [''https://good.example/actor'', ''https://good.example/outbox'',
           ''https://good.example/outbox?page=1'', ''https://good.example/notes/2'',
           ''https://good.example/notes/3'', ''https://good.example/act/5''])"
  by code_simp


lemma sample_fetch_posts:
  "map_sum id r_debug_outbox_page (fetch_posts php_sample sample_net 0 ''https://good.example/actor'' 20)
   = Inr sample_page"
proof -
  obtain r urls where f: "fetch php_sample sample_net [] 0 ''https://good.example/actor'' 20 = Inr (r, urls)"
    using sample_fetch
    by (cases "fetch php_sample sample_net [] 0 ''https://good.example/actor'' 20") auto
  from sample_fetch have "debug_outbox_page r = sample_page" by (simp add: f)
  then show ?thesis by (simp add: fetch_posts_def clamp_max_posts_def f)
qed

text \<open>
  Claim C10. In every result of \<open>fetch\<close>, \<open>count\<close> is the number of posts, \<open>actor_url\<close> is
  the requested actor URL, and \<open>outbox_url\<close> is the \<^verbatim>\<open>outbox\<close> entry of the actor document
  that was fetched from this URL and validated.
\<close>

theorem fetch_meta_consistent:
  assumes "fetch env net allowedDomains now actorUrl maxPosts = Inr (r, urls)"
  shows "count (meta r) = length (posts r)
       \<and> actor_url (meta r) = actorUrl
       \<and> (\<exists>actorJson. httpGet net actorUrl = Inr actorJson \<and> validateActorObject env actorJson
            \<and> php_index actorJson ''outbox'' = Some (outbox_url (meta r)))"
  using assms by (elim fetch_success) auto

theorem fetch_meta_consistent_witness:
  "(case fetch php_sample sample_net [] 0 ''https://good.example/actor'' 20 of
      Inl e \<Rightarrow> False
    | Inr (r, urls) \<Rightarrow>
        count (meta r) = length (posts r) \<and> length (posts r) = 2
        \<and> actor_url (meta r) = ''https://good.example/actor''
        \<and> outbox_url (meta r) = JStr ''https://good.example/outbox'')"
proof -
  obtain r urls where f: "fetch php_sample sample_net [] 0 ''https://good.example/actor'' 20 = Inr (r, urls)"
    using sample_fetch
    by (cases "fetch php_sample sample_net [] 0 ''https://good.example/actor'' 20") auto
  from fetch_meta_consistent [OF f] have "count (meta r) = length (posts r)" by blast
  moreover from sample_fetch have "count (meta r) = 2" "actor_url (meta r) = ''https://good.example/actor''"
    "outbox_url (meta r) = JStr ''https://good.example/outbox''"
    by (simp_all add: f)
  ultimately show ?thesis by (simp add: f)
qed



text \<open>
  Claim C9, in the form that holds. There is no feature flag: every successful response of
  the \<^verbatim>\<open>fetch_posts\<close> action carries under \<^verbatim>\<open>debug_outbox_page\<close> the working outbox page, a
  document received from the remote server, and under \<^verbatim>\<open>debug_test\<close> a marker with the time
  of day. The unparsed items are not part of the response.
\<close>

theorem fetch_posts_debug_fields:
  assumes "fetch_posts env net now actorUrl maxPosts = Inr resp"
  shows "r_debug_outbox_page resp \<noteq> JNull
       \<and> is_array (r_debug_outbox_page resp)
       \<and> validateOutboxCollection (r_debug_outbox_page resp)
       \<and> (\<exists>u. httpGet net u = Inr (r_debug_outbox_page resp))
       \<and> r_debug_test resp = JStr (''THIS_IS_A_TEST_'' @ date_format env ''H:i:s'' now)"
proof -
  from assms obtain r urls where f: "fetch env net [] now actorUrl (clamp_max_posts maxPosts) = Inr (r, urls)"
    and resp: "resp = \<lparr>r_posts = map (toArray env) (posts r), r_actor_info = actor_info r,
                       r_meta = meta r, r_debug_outbox_page = debug_outbox_page r,
                       r_debug_test = JStr (debug_test r)\<rparr>"
    by (auto simp: fetch_posts_def split: sum.splits prod.splits)
  from f show ?thesis
  proof (rule fetch_success)
    fix actorJson outboxUrl ob coll page pageUrls info and st :: loop_state
    assume coll: "httpGet net ob = Inr coll"
      and pg: "(case php_index coll ''first'' of
          Some (JStr f) \<Rightarrow> map_sum id (\<lambda>pg. (pg, [f])) (httpGet net f)
        | _ \<Rightarrow> Inr (coll, [])) = Inr (page, pageUrls)"
      and valid: "validateOutboxCollection page"
      and r: "r = \<lparr>posts = note_list st, actor_info = info,
          meta = \<lparr>count = length (note_list st), fetched_at = date_format env ''c'' now,
                   actor_url = actorUrl, outbox_url = outboxUrl\<rparr>,
          debug_outbox_page = page,
          debug_test = ''THIS_IS_A_TEST_'' @ date_format env ''H:i:s'' now\<rparr>"
    from working_page_array [OF coll pg] have arr: "is_array page" and ex: "\<exists>u. httpGet net u = Inr page"
      by simp_all
    from arr have "page \<noteq> JNull" by auto
    with arr ex valid show ?thesis by (simp add: resp r)
  qed
qed

theorem fetch_posts_debug_fields_witness:
  "(case fetch_posts php_sample sample_net 0 ''https://good.example/actor'' 20 of
      Inl e \<Rightarrow> False
    | Inr resp \<Rightarrow> r_debug_outbox_page resp = sample_page \<and> is_array (r_debug_outbox_page resp)
                  \<and> r_debug_test resp = JStr ''THIS_IS_A_TEST_00:00:00'')"
proof -
  obtain resp where f: "fetch_posts php_sample sample_net 0 ''https://good.example/actor'' 20 = Inr resp"
    using sample_fetch_posts
    by (cases "fetch_posts php_sample sample_net 0 ''https://good.example/actor'' 20") auto
  have t: "date_format php_sample ''H:i:s'' 0 = ''00:00:00''" by code_simp
  from fetch_posts_debug_fields [OF f] sample_fetch_posts t show ?thesis by (simp add: f)
qed

text \<open>
  Claim C9 as stated fails on the sample: the response of a successful fetch contains the
  raw outbox page.
\<close>

theorem fetch_posts_debug_counterexample:
  "map_sum id r_debug_outbox_page (fetch_posts php_sample sample_net 0 ''https://good.example/actor'' 20)
     = Inr sample_page
   \<and> sample_page \<noteq> JNull"
  using sample_fetch_posts by (simp add: sample_page_def)

end
